theory Spec2Isabelle
  imports Complex_Main "HOL-Library.Sublist" "HOL-Library.Multiset"
begin

section \<open>Python values shared by the modules\<close>

text \<open>
  A Python \<open>str\<close> is modelled by its UTF-8 encoding, a \<open>string\<close>; the Japanese
  literals of the source are written byte by byte. Containment (\<open>in\<close>) and \<open>split\<close> on
  the encodings agree with the operations on code points, since in UTF-8 the encoding of a
  text occurs in another only at character boundaries. Python \<open>int\<close> is \<open>int\<close>, and
  a Python \<open>float\<close> is an exact \<open>real\<close>: rounding and overflow of IEEE doubles are
  not modelled (the weights of the score are whole numbers, so the score of counts below
  2^49 is exact in the source as well).

  The exceptions the modelled code can raise; \<open>DownstreamError\<close> stands for whatever
  the call of the generative model raises.
\<close>

datatype error = AttributeError | KeyError | ValueError | IndexError | DownstreamError

text \<open>A Python \<open>dict\<close> with its insertion order: an association list with distinct keys.
  Assigning to a key that is present keeps the key's position.\<close>

fun dict_set :: "('k \<times> 'v) list \<Rightarrow> 'k \<Rightarrow> 'v \<Rightarrow> ('k \<times> 'v) list" where
  "dict_set [] k v = [(k, v)]"
| "dict_set ((k', v') # d) k v = (if k' = k then (k, v) # d else (k', v') # dict_set d k v)"

definition dict_get :: "('k \<times> 'v) list \<Rightarrow> 'k \<Rightarrow> 'v option" where
  "dict_get d k = map_of d k"

definition dict_values :: "('k \<times> 'v) list \<Rightarrow> 'v list" where
  "dict_values d = map snd d"

section \<open>scoring\_system.py\<close>

record UserScore =
  user_id :: string
  user_name :: string
  post_count :: int
  positive_count :: int
  reaction_count :: int
  violation_count :: int
  total_score :: real

text \<open>The dataclass constructor \<open>UserScore(user_id=..., user_name=...)\<close> with its defaults.\<close>

definition new_UserScore :: "string \<Rightarrow> string \<Rightarrow> UserScore" where
  "new_UserScore uid uname =
     \<lparr>user_id = uid, user_name = uname, post_count = 0, positive_count = 0,
      reaction_count = 0, violation_count = 0, total_score = 0.0\<rparr>"

definition calculate_total_score :: "UserScore \<Rightarrow> real" where
  "calculate_total_score u =
     real_of_int (post_count u) * 1.0
     + real_of_int (positive_count u) * 5.0
     + real_of_int (reaction_count u) * 2.0
     - real_of_int (violation_count u) * 10.0"

text \<open>\<open>ScoringSystem\<close>: its only attribute is the dict \<open>users\<close>.\<close>

type_synonym scoring_system = "(string \<times> UserScore) list"

definition new_ScoringSystem :: scoring_system where
  "new_ScoringSystem = []"

text \<open>\<open>add_user_activity\<close>: the record is created on the first activity of the user id,
  then the four counts are added to it in place.\<close>

definition add_user_activity ::
  "scoring_system \<Rightarrow> string \<Rightarrow> string \<Rightarrow> int \<Rightarrow> int \<Rightarrow> int \<Rightarrow> int \<Rightarrow> scoring_system" where
  "add_user_activity users uid uname pc posc reaction_received vc =
     (let users1 = (case dict_get users uid of
                      None \<Rightarrow> dict_set users uid (new_UserScore uid uname)
                    | Some _ \<Rightarrow> users)
      in case dict_get users1 uid of
           None \<Rightarrow> users1
         | Some user \<Rightarrow>
             dict_set users1 uid
               (user\<lparr>post_count := post_count user + pc,
                     positive_count := positive_count user + posc,
                     reaction_count := reaction_count user + reaction_received,
                     violation_count := violation_count user + vc\<rparr>))"

text \<open>Python's \<open>sorted(xs, key=k, reverse=True)\<close>: descending by key, and stable (elements
  with equal keys keep their order in \<open>xs\<close>).\<close>

definition py_sorted_reverse :: "('a \<Rightarrow> real) \<Rightarrow> 'a list \<Rightarrow> 'a list" where
  "py_sorted_reverse k xs = sort_key (\<lambda>x. - k x) xs"

definition calculate_rankings :: "scoring_system \<Rightarrow> UserScore list" where
  "calculate_rankings users = py_sorted_reverse calculate_total_score (dict_values users)"

text \<open>One call of \<open>add_user_activity\<close>, as data: the arguments in the source's order.\<close>

record activity =
  a_user_id :: string
  a_user_name :: string
  a_post_count :: int
  a_positive_count :: int
  a_reaction_received :: int
  a_violation_count :: int

definition record_activity :: "scoring_system \<Rightarrow> activity \<Rightarrow> scoring_system" where
  "record_activity users a =
     add_user_activity users (a_user_id a) (a_user_name a) (a_post_count a)
       (a_positive_count a) (a_reaction_received a) (a_violation_count a)"

definition record_all :: "scoring_system \<Rightarrow> activity list \<Rightarrow> scoring_system" where
  "record_all users acts = foldl record_activity users acts"

text \<open>The invariant of the dict \<open>users\<close>: keys are distinct, and each record carries its
  own key as \<open>user_id\<close>.\<close>

definition users_ok :: "scoring_system \<Rightarrow> bool" where
  "users_ok users = (distinct (map fst users) \<and> list_all (\<lambda>(k, u). user_id u = k) users)"

text \<open>
  \<open>save_to_file\<close> and \<open>load_from_file\<close>. The file holds the JSON object
  \<open>{user_id: {"user_name": ..., "post_count": ..., "positive_count": ..., "reaction_count": ...,
  "violation_count": ..., "total_score": ...}}\<close>; \<open>json.dump\<close> followed by \<open>json.load\<close>
  returns the same object, so a file is modelled by the object it holds. An inner object
  is a \<open>score_data\<close>: each key is present (with a value of the annotated type) or absent,
  which is what \<open>score_data["user_name"]\<close> and \<open>score_data.get(key, default)\<close> observe.
\<close>

record score_data =
  sd_user_name :: "string option"
  sd_post_count :: "int option"
  sd_positive_count :: "int option"
  sd_reaction_count :: "int option"
  sd_violation_count :: "int option"
  sd_total_score :: "real option"

type_synonym score_file = "(string \<times> score_data) list"

type_synonym filesystem = "string \<Rightarrow> score_file option"

definition score_to_data :: "UserScore \<Rightarrow> score_data" where
  "score_to_data score =
     \<lparr>sd_user_name = Some (user_name score),
      sd_post_count = Some (post_count score),
      sd_positive_count = Some (positive_count score),
      sd_reaction_count = Some (reaction_count score),
      sd_violation_count = Some (violation_count score),
      sd_total_score = Some (total_score score)\<rparr>"

definition save_to_file :: "scoring_system \<Rightarrow> string \<Rightarrow> filesystem \<Rightarrow> filesystem" where
  "save_to_file users filepath fs =
     fs(filepath \<mapsto> map (\<lambda>(uid, score). (uid, score_to_data score)) users)"

definition get_or :: "'a option \<Rightarrow> 'a \<Rightarrow> 'a" where
  "get_or v d = (case v of None \<Rightarrow> d | Some x \<Rightarrow> x)"

text \<open>The loop of \<open>load_from_file\<close> over \<open>data.items()\<close>. A missing \<open>"user_name"\<close> raises
  KeyError, which \<open>load_from_file\<close> does not catch: the records loaded so far stay in
  \<open>self.users\<close>, so the model returns the dict together with the error.\<close>

fun load_items :: "scoring_system \<Rightarrow> score_file \<Rightarrow> scoring_system \<times> error option" where
  "load_items users [] = (users, None)"
| "load_items users ((uid, sd) # rest) =
     (case sd_user_name sd of
        None \<Rightarrow> (users, Some KeyError)
      | Some nm \<Rightarrow>
          load_items
            (dict_set users uid
               \<lparr>user_id = uid, user_name = nm,
                post_count = get_or (sd_post_count sd) 0,
                positive_count = get_or (sd_positive_count sd) 0,
                reaction_count = get_or (sd_reaction_count sd) 0,
                violation_count = get_or (sd_violation_count sd) 0,
                total_score = get_or (sd_total_score sd) 0.0\<rparr>)
            rest)"

text \<open>A file that does not exist raises FileNotFoundError inside the \<open>try\<close>, before
  \<open>self.users\<close> is reset: the engine keeps its records and nothing is raised.\<close>

definition load_from_file ::
  "scoring_system \<Rightarrow> string \<Rightarrow> filesystem \<Rightarrow> scoring_system \<times> error option" where
  "load_from_file users filepath fs =
     (case fs filepath of
        None \<Rightarrow> (users, None)
      | Some data \<Rightarrow> load_items [] data)"

text \<open>A score file that differs from \<open>data\<close> in nothing but the stored
  \<open>"total_score"\<close> of each user: \<open>g\<close> gives the number stored for a user id, or
  \<open>None\<close> when the key is missing.\<close>

definition with_stored_totals :: "(string \<Rightarrow> real option) \<Rightarrow> score_file \<Rightarrow> score_file" where
  "with_stored_totals g data = map (\<lambda>(uid, sd). (uid, sd\<lparr>sd_total_score := g uid\<rparr>)) data"

text \<open>The user ids of a sequence of calls, each once, in the order of its first call.\<close>

primrec first_seen :: "'a list \<Rightarrow> 'a list" where
  "first_seen [] = []"
| "first_seen (x # xs) = x # filter (\<lambda>y. y \<noteq> x) (first_seen xs)"

text \<open>The record that a user's calls add up to, starting from the record \<open>u\<close>.\<close>

definition add_counts :: "UserScore \<Rightarrow> activity list \<Rightarrow> UserScore" where
  "add_counts u acts =
     u\<lparr>post_count := post_count u + sum_list (map a_post_count acts),
       positive_count := positive_count u + sum_list (map a_positive_count acts),
       reaction_count := reaction_count u + sum_list (map a_reaction_received acts),
       violation_count := violation_count u + sum_list (map a_violation_count acts)\<rparr>"

section \<open>JSON values and string methods\<close>

text \<open>What \<open>json.loads\<close> returns, and what the classifier's result dict holds.\<close>

datatype json = JNull | JBool bool | JInt int | JFloat real | JStr string
  | JList "json list" | JObj "(string \<times> json) list"

text \<open>Python's truth value of a JSON value, as \<open>if value:\<close> tests it.\<close>

fun truthy :: "json \<Rightarrow> bool" where
  "truthy JNull = False"
| "truthy (JBool b) = b"
| "truthy (JInt n) = (n \<noteq> 0)"
| "truthy (JFloat x) = (x \<noteq> 0)"
| "truthy (JStr s) = (s \<noteq> [])"
| "truthy (JList xs) = (xs \<noteq> [])"
| "truthy (JObj kvs) = (kvs \<noteq> [])"

text \<open>\<open>d.get(key, default)\<close>: only a dict has the method, any other value raises
  AttributeError.\<close>

definition json_get :: "json \<Rightarrow> string \<Rightarrow> json \<Rightarrow> error + json" where
  "json_get d key dflt =
     (case d of
        JObj kvs \<Rightarrow> Inr (get_or (map_of kvs key) dflt)
      | _ \<Rightarrow> Inl AttributeError)"

text \<open>\<open>sub in s\<close> on strings: \<open>sub\<close> occurs in \<open>s\<close> as a contiguous piece.\<close>

fun py_in :: "'a list \<Rightarrow> 'a list \<Rightarrow> bool" where
  "py_in sub [] = (sub = [])"
| "py_in sub (x # xs) = (prefix sub (x # xs) \<or> py_in sub xs)"

text \<open>\<open>s.split(sep)\<close>: the scan from the left, cutting at each occurrence of \<open>sep\<close> and
  going on behind it; \<open>cur\<close> is the piece being read. An empty separator raises
  ValueError.\<close>

function py_split_from :: "'a list \<Rightarrow> 'a list \<Rightarrow> 'a list \<Rightarrow> 'a list list" where
  "py_split_from sep cur [] = [cur]"
| "py_split_from sep cur (x # xs) =
     (if sep \<noteq> [] \<and> prefix sep (x # xs)
      then cur # py_split_from sep [] (drop (length sep) (x # xs))
      else py_split_from sep (cur @ [x]) xs)"
  by pat_completeness auto
termination
  by (relation "measure (\<lambda>(sep, cur, s). length s)") auto

definition py_split :: "'a list \<Rightarrow> 'a list \<Rightarrow> error + 'a list list" where
  "py_split s sep = (if sep = [] then Inl ValueError else Inr (py_split_from sep [] s))"

text \<open>\<open>xs[i]\<close> for an index that is not negative.\<close>

definition py_index :: "'a list \<Rightarrow> nat \<Rightarrow> error + 'a" where
  "py_index xs i = (if i < length xs then Inr (xs ! i) else Inl IndexError)"

text \<open>Sequencing of steps that may raise.\<close>

definition and_then :: "error + 'a \<Rightarrow> ('a \<Rightarrow> error + 'b) \<Rightarrow> error + 'b" where
  "and_then r f = (case r of Inl e \<Rightarrow> Inl e | Inr x \<Rightarrow> f x)"

section \<open>content\_analyzer.py\<close>

text \<open>The two fences, three backquotes with and without \<open>json\<close>.\<close>

definition fence :: string where
  "fence = [CHR 0x60, CHR 0x60, CHR 0x60]"

definition fence_json :: string where
  "fence_json = [CHR 0x60, CHR 0x60, CHR 0x60] @ ''json''"

text \<open>The f-string of \<open>analyze_post\<close>: the text before and after \<open>{text}\<close>.\<close>

definition prompt_head :: string where
  "prompt_head =
     [CHR 0x0A] @ ''        '' @
     [CHR 0xE4, CHR 0xBB, CHR 0xA5, CHR 0xE4, CHR 0xB8, CHR 0x8B, CHR 0xE3, CHR 0x81, CHR 0xAE] @
     ''Slack'' @
     [CHR 0xE6, CHR 0x8A, CHR 0x95, CHR 0xE7, CHR 0xA8, CHR 0xBF, CHR 0xE3, CHR 0x82, CHR 0x92, CHR 0xE5,
      CHR 0x88, CHR 0x86, CHR 0xE6, CHR 0x9E, CHR 0x90, CHR 0xE3, CHR 0x81, CHR 0x97, CHR 0xE3, CHR 0x80,
      CHR 0x81] @
     ''JSON'' @
     [CHR 0xE5, CHR 0xBD, CHR 0xA2, CHR 0xE5, CHR 0xBC, CHR 0x8F, CHR 0xE3, CHR 0x81, CHR 0xA7, CHR 0xE7,
      CHR 0xB5, CHR 0x90, CHR 0xE6, CHR 0x9E, CHR 0x9C, CHR 0xE3, CHR 0x82, CHR 0x92, CHR 0xE8, CHR 0xBF,
      CHR 0x94, CHR 0xE3, CHR 0x81, CHR 0x97, CHR 0xE3, CHR 0x81, CHR 0xA6, CHR 0xE3, CHR 0x81, CHR 0x8F,
      CHR 0xE3, CHR 0x81, CHR 0xA0, CHR 0xE3, CHR 0x81, CHR 0x95, CHR 0xE3, CHR 0x81, CHR 0x84, CHR 0xEF,
      CHR 0xBC, CHR 0x9A, CHR 0x0A] @
     ''        '' @ [CHR 0x0A] @ ''        '' @
     [CHR 0xE6, CHR 0x8A, CHR 0x95, CHR 0xE7, CHR 0xA8, CHR 0xBF, CHR 0xE5, CHR 0x86, CHR 0x85, CHR 0xE5,
      CHR 0xAE, CHR 0xB9] @
     '': '' @ [CHR 0x22]"

definition prompt_tail :: string where
  "prompt_tail =
     [CHR 0x22, CHR 0x0A] @ ''        '' @ [CHR 0x0A] @ ''        '' @
     [CHR 0xE5, CHR 0x88, CHR 0x86, CHR 0xE6, CHR 0x9E, CHR 0x90, CHR 0xE9, CHR 0xA0, CHR 0x85, CHR 0xE7,
      CHR 0x9B, CHR 0xAE] @
     '':'' @ [CHR 0x0A] @ ''        1. guideline_violation: '' @
     [CHR 0xE3, CHR 0x82, CHR 0xAC, CHR 0xE3, CHR 0x82, CHR 0xA4, CHR 0xE3, CHR 0x83, CHR 0x89, CHR 0xE3,
      CHR 0x83, CHR 0xA9, CHR 0xE3, CHR 0x82, CHR 0xA4, CHR 0xE3, CHR 0x83, CHR 0xB3, CHR 0xE9, CHR 0x81,
      CHR 0x95, CHR 0xE5, CHR 0x8F, CHR 0x8D, CHR 0xE3, CHR 0x81, CHR 0xAE, CHR 0xE5, CHR 0x8F, CHR 0xAF,
      CHR 0xE8, CHR 0x83, CHR 0xBD, CHR 0xE6, CHR 0x80, CHR 0xA7, CHR 0xEF, CHR 0xBC, CHR 0x88] @
     ''0-100%'' @ [CHR 0xEF, CHR 0xBC, CHR 0x89, CHR 0x0A] @
     ''        2. violation_reason: '' @
     [CHR 0xE9, CHR 0x81, CHR 0x95, CHR 0xE5, CHR 0x8F, CHR 0x8D, CHR 0xE7, CHR 0x90, CHR 0x86, CHR 0xE7,
      CHR 0x94, CHR 0xB1, CHR 0xEF, CHR 0xBC, CHR 0x88, CHR 0xE9, CHR 0x81, CHR 0x95, CHR 0xE5, CHR 0x8F,
      CHR 0x8D, CHR 0xE3, CHR 0x81, CHR 0xAE, CHR 0xE5, CHR 0xA0, CHR 0xB4, CHR 0xE5, CHR 0x90, CHR 0x88,
      CHR 0xE3, CHR 0x81, CHR 0xAE, CHR 0xE3, CHR 0x81, CHR 0xBF, CHR 0xEF, CHR 0xBC, CHR 0x89, CHR 0x0A] @
     ''        3. positive_feedback: '' @
     [CHR 0xE3, CHR 0x83, CHR 0x9D, CHR 0xE3, CHR 0x82, CHR 0xB8, CHR 0xE3, CHR 0x83, CHR 0x86, CHR 0xE3,
      CHR 0x82, CHR 0xA3, CHR 0xE3, CHR 0x83, CHR 0x96, CHR 0xE3, CHR 0x83, CHR 0x95, CHR 0xE3, CHR 0x82,
      CHR 0xA3, CHR 0xE3, CHR 0x83, CHR 0xBC, CHR 0xE3, CHR 0x83, CHR 0x89, CHR 0xE3, CHR 0x83, CHR 0x90,
      CHR 0xE3, CHR 0x83, CHR 0x83, CHR 0xE3, CHR 0x82, CHR 0xAF, CHR 0xE3, CHR 0x81, CHR 0x8B, CHR 0xE3,
      CHR 0x81, CHR 0xA9, CHR 0xE3, CHR 0x81, CHR 0x86, CHR 0xE3, CHR 0x81, CHR 0x8B, CHR 0xEF, CHR 0xBC,
      CHR 0x88] @
     ''true/false'' @ [CHR 0xEF, CHR 0xBC, CHR 0x89, CHR 0x0A] @
     ''        4. positive_type: '' @
     [CHR 0xE3, CHR 0x83, CHR 0x9D, CHR 0xE3, CHR 0x82, CHR 0xB8, CHR 0xE3, CHR 0x83, CHR 0x86, CHR 0xE3,
      CHR 0x82, CHR 0xA3, CHR 0xE3, CHR 0x83, CHR 0x96, CHR 0xE3, CHR 0x81, CHR 0xAE, CHR 0xE7, CHR 0xA8,
      CHR 0xAE, CHR 0xE9, CHR 0xA1, CHR 0x9E, CHR 0xEF, CHR 0xBC, CHR 0x88, CHR 0xE6, CHR 0x84, CHR 0x9F,
      CHR 0xE8, CHR 0xAC, CHR 0x9D, CHR 0xE3, CHR 0x80, CHR 0x81, CHR 0xE7, CHR 0xA7, CHR 0xB0, CHR 0xE8,
      CHR 0xB3, CHR 0x9B, CHR 0xE3, CHR 0x80, CHR 0x81, CHR 0xE5, CHR 0x8A, CHR 0xB1, CHR 0xE3, CHR 0x81,
      CHR 0xBE, CHR 0xE3, CHR 0x81, CHR 0x97, CHR 0xE3, CHR 0x80, CHR 0x81, CHR 0xE3, CHR 0x81, CHR 0x9D,
      CHR 0xE3, CHR 0x81, CHR 0xAE, CHR 0xE4, CHR 0xBB, CHR 0x96, CHR 0xEF, CHR 0xBC, CHR 0x89, CHR 0x0A] @
     ''        5. contribution_score: '' @
     [CHR 0xE8, CHR 0xB2, CHR 0xA2, CHR 0xE7, CHR 0x8C, CHR 0xAE, CHR 0xE5, CHR 0xBA, CHR 0xA6, CHR 0xE3,
      CHR 0x82, CHR 0xB9, CHR 0xE3, CHR 0x82, CHR 0xB3, CHR 0xE3, CHR 0x82, CHR 0xA2, CHR 0xEF, CHR 0xBC,
      CHR 0x88] @
     ''0-10'' @ [CHR 0xEF, CHR 0xBC, CHR 0x89, CHR 0x0A] @ ''        '' @ [CHR 0x0A] @
     ''        '' @
     [CHR 0xE8, CHR 0xBF, CHR 0x94, CHR 0xE7, CHR 0xAD, CHR 0x94, CHR 0xE3, CHR 0x81, CHR 0xAF] @
     ''JSON'' @
     [CHR 0xE5, CHR 0xBD, CHR 0xA2, CHR 0xE5, CHR 0xBC, CHR 0x8F, CHR 0xE3, CHR 0x81, CHR 0xAE, CHR 0xE3,
      CHR 0x81, CHR 0xBF, CHR 0xE3, CHR 0x81, CHR 0xA7, CHR 0xE3, CHR 0x80, CHR 0x81, CHR 0xE8, CHR 0xAA,
      CHR 0xAC, CHR 0xE6, CHR 0x98, CHR 0x8E, CHR 0xE3, CHR 0x81, CHR 0xAF, CHR 0xE4, CHR 0xB8, CHR 0x8D,
      CHR 0xE8, CHR 0xA6, CHR 0x81, CHR 0xE3, CHR 0x81, CHR 0xA7, CHR 0xE3, CHR 0x81, CHR 0x99, CHR 0xE3,
      CHR 0x80, CHR 0x82, CHR 0x0A] @
     ''        ''"

definition prompt :: "string \<Rightarrow> string" where
  "prompt post = prompt_head @ post @ prompt_tail"

text \<open>The dict returned from the \<open>except\<close> branch.\<close>

definition safe_default :: json where
  "safe_default =
     JObj [(''guideline_violation'', JInt 0),
           (''violation_reason'', JNull),
           (''positive_feedback'', JBool False),
           (''positive_type'', JNull),
           (''contribution_score'', JInt 0)]"

text \<open>The extraction of the JSON block from the response text.\<close>

definition strip_fences :: "string \<Rightarrow> error + string" where
  "strip_fences result_text =
     (if py_in fence_json result_text then
        and_then (py_split result_text fence_json) (\<lambda>parts.
        and_then (py_index parts 1) (\<lambda>inner.
        and_then (py_split inner fence) (\<lambda>pieces.
        py_index pieces 0)))
      else if py_in fence result_text then
        and_then (py_split result_text fence) (\<lambda>parts.
        and_then (py_index parts 1) (\<lambda>inner.
        and_then (py_split inner fence) (\<lambda>pieces.
        py_index pieces 0)))
      else Inr result_text)"

text \<open>
  What the code takes from outside. Of the library (\<open>pylib\<close>): \<open>str.strip\<close>,
  \<open>str.lower\<close>, \<open>json.loads\<close>, which raises on text that is not JSON, and
  \<open>datetime.fromtimestamp(float(ts))\<close>, which raises on a string that is not a number or
  is out of range (a \<open>datetime\<close> is modelled by its POSIX seconds). Of the world, for
  one call of \<open>analyze_post\<close>: the clock, the time
  \<open>time.sleep\<close> takes beyond what was asked, the outcome of
  \<open>self.model.generate_content(prompt).text\<close> (the text, or the exception of the call or
  of reading \<open>.text\<close>) and the time that call takes.
\<close>

record pylib =
  str_strip :: "string \<Rightarrow> string"
  str_lower :: "string \<Rightarrow> string"
  json_loads :: "string \<Rightarrow> error + json"
  datetime_fromtimestamp :: "string \<Rightarrow> error + real"

record call_env =
  sleep_extra :: real
  generate_content :: "string \<Rightarrow> error + string"
  generate_time :: real

record ContentAnalyzer =
  last_request_time :: real
  request_interval :: real

definition new_ContentAnalyzer :: ContentAnalyzer where
  "new_ContentAnalyzer = \<lparr>last_request_time = 0, request_interval = 4.5\<rparr>"

text \<open>\<open>time.sleep(secs)\<close> on the clock \<open>now\<close>: a negative argument raises ValueError.\<close>

definition time_sleep :: "call_env \<Rightarrow> real \<Rightarrow> real \<Rightarrow> error + real" where
  "time_sleep env now secs =
     (if secs < 0 then Inl ValueError else Inr (now + secs + sleep_extra env))"

text \<open>The body of the \<open>try\<close>.\<close>

definition request_and_parse :: "pylib \<Rightarrow> call_env \<Rightarrow> string \<Rightarrow> error + json" where
  "request_and_parse lib env post =
     and_then (generate_content env (prompt post)) (\<lambda>text_of_response.
     and_then (strip_fences (str_strip lib text_of_response)) (\<lambda>result_text.
     json_loads lib result_text))"

text \<open>\<open>analyze_post\<close>: the result, the analyzer with the new \<open>last_request_time\<close>, and
  the clock when the call returns.\<close>

definition analyze_post ::
  "pylib \<Rightarrow> call_env \<Rightarrow> ContentAnalyzer \<times> real \<Rightarrow> string \<Rightarrow> error + (json \<times> ContentAnalyzer \<times> real)" where
  "analyze_post lib env st post =
     (let (self, now) = st;
          current_time = now;
          time_since_last_request = current_time - last_request_time self
      in and_then
           (if time_since_last_request < request_interval self
            then time_sleep env now (request_interval self - time_since_last_request)
            else Inr now)
           (\<lambda>now1.
              let self1 = self\<lparr>last_request_time := now1\<rparr>;
                  result = (case request_and_parse lib env post of
                              Inl e \<Rightarrow> safe_default
                            | Inr parsed \<Rightarrow> parsed)
              in Inr (result, self1, now1 + generate_time env)))"

text \<open>\<open>batch_analyze\<close>: one call after the other, with nothing in between. The model
  keeps, next to each result, the \<open>last_request_time\<close> recorded for its call.\<close>

fun analyze_posts ::
  "pylib \<Rightarrow> ContentAnalyzer \<times> real \<Rightarrow> (call_env \<times> string) list
   \<Rightarrow> error + ((json \<times> real) list \<times> ContentAnalyzer \<times> real)" where
  "analyze_posts lib st [] = Inr ([], st)"
| "analyze_posts lib st ((env, post) # posts) =
     and_then (analyze_post lib env st post) (\<lambda>(result, self1, now1).
     and_then (analyze_posts lib (self1, now1) posts) (\<lambda>(results, st2).
     Inr ((result, last_request_time self1) # results, st2)))"

definition batch_analyze ::
  "pylib \<Rightarrow> ContentAnalyzer \<times> real \<Rightarrow> (call_env \<times> string) list
   \<Rightarrow> error + (json list \<times> ContentAnalyzer \<times> real)" where
  "batch_analyze lib st posts =
     and_then (analyze_posts lib st posts) (\<lambda>(results, st2). Inr (map fst results, st2))"

section \<open>scoring\_system.py, continued\<close>

text \<open>\<open>update_user_post\<close>, the older entry point of the engine, used by the demo: it
  derives both flags from the result dict and passes the violation on.\<close>

definition update_user_post ::
  "scoring_system \<Rightarrow> string \<Rightarrow> string \<Rightarrow> json \<Rightarrow> int \<Rightarrow> error + scoring_system" where
  "update_user_post users uid uname analysis_result reactions_count =
     and_then (json_get analysis_result ''positive_feedback'' (JBool False)) (\<lambda>positive.
     and_then (json_get analysis_result ''guideline_violation'' (JBool False)) (\<lambda>violation.
     Inr (add_user_activity users uid uname 1
            (if truthy positive then 1 else 0) reactions_count
            (if truthy violation then 1 else 0))))"

section \<open>slack\_client.py\<close>

text \<open>
  A message dict, with the keys the processor reads: each is present or absent.
  \<open>user_info\<close> is the dict that \<open>enrich_messages_with_user_info\<close> attaches, always with
  its three keys.
\<close>

record user_info =
  real_name :: string
  display_name :: string
  is_bot :: bool

record message =
  msg_text :: "string option"
  msg_user :: "string option"
  msg_ts :: "string option"
  msg_subtype :: "string option"
  msg_user_info :: "user_info option"

text \<open>The user object of the Slack API, as far as it is read: \<open>real_name\<close>,
  \<open>profile.display_name\<close> and \<open>is_bot\<close>, each present or absent. A reaction of a message
  with its \<open>count\<close>.\<close>

record slack_user =
  su_real_name :: "string option"
  su_display_name :: "string option"
  su_is_bot :: "bool option"

record reaction =
  r_name :: string
  r_count :: "int option"

text \<open>
  \<open>SlackClient\<close>. Its methods \<open>get_channel_messages\<close>, \<open>get_user_info\<close> and
  \<open>get_reactions\<close> wrap one call of the Slack web API each and turn a \<open>SlackApiError\<close> into
  an empty list or \<open>None\<close>; the web API is outside the program, so a client is given by
  what the three methods return.
\<close>

record SlackClient =
  get_channel_messages :: "string \<Rightarrow> int \<Rightarrow> message list"
  get_user_info :: "string \<Rightarrow> slack_user option"
  get_reactions :: "string \<Rightarrow> string \<Rightarrow> reaction list"

text \<open>\<open>enrich_messages_with_user_info\<close>: the loop with its cache of users looked up.\<close>

fun enrich_loop ::
  "SlackClient \<Rightarrow> (string \<Rightarrow> user_info option) \<Rightarrow> message list \<Rightarrow> message list" where
  "enrich_loop sl user_cache [] = []"
| "enrich_loop sl user_cache (message # messages) =
     (let user_id = msg_user message;
          user_cache1 =
            (case user_id of
               None \<Rightarrow> user_cache
             | Some uid \<Rightarrow>
                 if uid \<noteq> [] \<and> user_cache uid = None then
                   (case get_user_info sl uid of
                      None \<Rightarrow> user_cache
                    | Some info \<Rightarrow>
                        user_cache(uid \<mapsto>
                          \<lparr>real_name = get_or (su_real_name info) [],
                           display_name = get_or (su_display_name info) [],
                           is_bot = get_or (su_is_bot info) False\<rparr>))
                 else user_cache);
          message1 =
            (case user_id of
               None \<Rightarrow> message
             | Some uid \<Rightarrow>
                 (case user_cache1 uid of
                    None \<Rightarrow> message
                  | Some ui \<Rightarrow> message\<lparr>msg_user_info := Some ui\<rparr>))
      in message1 # enrich_loop sl user_cache1 messages)"

definition enrich_messages_with_user_info :: "SlackClient \<Rightarrow> message list \<Rightarrow> message list" where
  "enrich_messages_with_user_info sl messages = enrich_loop sl (\<lambda>_. None) messages"

section \<open>message\_processor.py\<close>

record violation_data =
  v_user_id :: string
  v_user_name :: string
  v_text :: string
  v_timestamp :: string
  v_channel_id :: string
  v_violation_reason :: json

record positive_data =
  p_user_id :: string
  p_user_name :: string
  p_text :: string
  p_timestamp :: string
  p_channel_id :: string
  p_positive_type :: json

text \<open>
  Modelled from the spec: \<open>ViolationAlert\<close> and \<open>NotificationSystem\<close> of
  \<open>src/notification_system.py\<close>, which is not among the sources. The alert has the fields
  of the constructor call in \<open>_analyze_message\<close> (the spec's ViolationAlert: userId,
  userName, realName optional, messageText, reason, channelId, messageId, timestamp,
  severity). The notification system is given by the alerts handed to
  \<open>send_violation_alert\<close>, in order; whether the delivery then fails does not reach the
  processor, which catches and logs every exception of the call.
\<close>

record ViolationAlert =
  va_user_id :: string
  va_user_name :: string
  va_real_name :: "string option"
  va_message_content :: string
  va_violation_reason :: json
  va_channel_id :: string
  va_message_id :: string
  va_timestamp :: real
  va_severity :: string

text \<open>
  \<open>MessageProcessor\<close>. \<open>slack\<close> and \<open>analyzer\<close> may be \<open>None\<close>; the analyzer is given by
  what its \<open>analyze_post\<close> returns for a text. The attribute \<open>db\<close> is not read by
  \<open>process_channel\<close> and its class is not among the sources.
\<close>

record MessageProcessor =
  slack :: "SlackClient option"
  analyzer :: "(string \<Rightarrow> json) option"
  scoring :: scoring_system
  violations :: "violation_data list"
  positive_messages :: "positive_data list"
  notification_system :: "ViolationAlert list option"

text \<open>\<open>__init__\<close>: the notification system exists exactly when the Slack client does
  (both are built when \<open>slack_token\<close> is given).\<close>

definition new_MessageProcessor ::
  "SlackClient option \<Rightarrow> (string \<Rightarrow> json) option \<Rightarrow> MessageProcessor" where
  "new_MessageProcessor sl an =
     \<lparr>slack = sl, analyzer = an, scoring = new_ScoringSystem,
      violations = [], positive_messages = [],
      notification_system = (case sl of None \<Rightarrow> None | Some _ \<Rightarrow> Some [])\<rparr>"

definition should_analyze :: "message \<Rightarrow> bool" where
  "should_analyze message =
     (if (case msg_user_info message of None \<Rightarrow> False | Some ui \<Rightarrow> is_bot ui) then False
      else if (case msg_subtype message of None \<Rightarrow> False | Some st \<Rightarrow> st \<noteq> []) then False
      else if \<not> (case msg_text message of None \<Rightarrow> False | Some t \<Rightarrow> t \<noteq> []) then False
      else True)"

text \<open>The two keyword lists of the severity, as UTF-8.\<close>

definition urgent_words :: "string list" where
  "urgent_words =
     [[CHR 0xE7, CHR 0xB7, CHR 0x8A, CHR 0xE6, CHR 0x80, CHR 0xA5],
      [CHR 0xE9, CHR 0x87, CHR 0x8D, CHR 0xE5, CHR 0xA4, CHR 0xA7],
      [CHR 0xE6, CHR 0xB7, CHR 0xB1, CHR 0xE5, CHR 0x88, CHR 0xBB],
      [CHR 0xE3, CHR 0x81, CHR 0xB2, CHR 0xE3, CHR 0x81, CHR 0xA9, CHR 0xE3, CHR 0x81, CHR 0x84]]"

definition problem_words :: "string list" where
  "problem_words =
     [[CHR 0xE4, CHR 0xB8, CHR 0x8D, CHR 0xE9, CHR 0x81, CHR 0xA9, CHR 0xE5, CHR 0x88, CHR 0x87],
      [CHR 0xE5, CHR 0x95, CHR 0x8F, CHR 0xE9, CHR 0xA1, CHR 0x8C],
      [CHR 0xE8, CHR 0x89, CHR 0xAF, CHR 0xE3, CHR 0x81, CHR 0x8F, CHR 0xE3, CHR 0x81, CHR 0xAA,
       CHR 0xE3, CHR 0x81, CHR 0x84]]"

definition severity_of :: "pylib \<Rightarrow> string \<Rightarrow> string" where
  "severity_of lib text_of_message =
     (let violation_text = str_lower lib text_of_message in
      if list_ex (\<lambda>word. py_in word violation_text) urgent_words then ''high''
      else if list_ex (\<lambda>word. py_in word violation_text) problem_words then ''medium''
      else ''low'')"

text \<open>The \<open>try\<close> block of the notification: every exception in it is caught and no
  alert is built; otherwise the alert is handed to \<open>send_violation_alert\<close>.
  \<open>default_alert_reason\<close> is the Japanese default of the alert's reason, as UTF-8.\<close>

definition default_alert_reason :: string where
  "default_alert_reason =
     [CHR 0xE3, CHR 0x82, CHR 0xAC, CHR 0xE3, CHR 0x82, CHR 0xA4, CHR 0xE3, CHR 0x83, CHR 0x89,
      CHR 0xE3, CHR 0x83, CHR 0xA9, CHR 0xE3, CHR 0x82, CHR 0xA4, CHR 0xE3, CHR 0x83, CHR 0xB3,
      CHR 0xE9, CHR 0x81, CHR 0x95, CHR 0xE5, CHR 0x8F, CHR 0x8D, CHR 0xE3, CHR 0x81, CHR 0x8C,
      CHR 0xE6, CHR 0xA4, CHR 0x9C, CHR 0xE5, CHR 0x87, CHR 0xBA, CHR 0xE3, CHR 0x81, CHR 0x95,
      CHR 0xE3, CHR 0x82, CHR 0x8C, CHR 0xE3, CHR 0x81, CHR 0xBE, CHR 0xE3, CHR 0x81, CHR 0x97,
      CHR 0xE3, CHR 0x81, CHR 0x9F]"

definition notify_violation ::
  "pylib \<Rightarrow> ViolationAlert list \<Rightarrow> message \<Rightarrow> string \<Rightarrow> json \<Rightarrow> ViolationAlert list" where
  "notify_violation lib sent message channel_id analysis =
     (let text_of_message = get_or (msg_text message) [];
          user_id = get_or (msg_user message) [];
          user_name = (case msg_user_info message of None \<Rightarrow> user_id | Some ui \<Rightarrow> real_name ui);
          timestamp = get_or (msg_ts message) [];
          severity = severity_of lib text_of_message
      in case datetime_fromtimestamp lib timestamp of
           Inl e \<Rightarrow> sent
         | Inr alert_timestamp \<Rightarrow>
             (case json_get analysis ''violation_details'' (JStr default_alert_reason) of
                Inl e \<Rightarrow> sent
              | Inr details \<Rightarrow>
                  sent @
                  [\<lparr>va_user_id = user_id, va_user_name = user_name,
                    va_real_name = map_option real_name (msg_user_info message),
                    va_message_content = text_of_message,
                    va_violation_reason = details,
                    va_channel_id = channel_id, va_message_id = timestamp,
                    va_timestamp = alert_timestamp, va_severity = severity\<rparr>]))"

text \<open>\<open>_analyze_message\<close>. The result dict is read with \<open>get\<close>, which raises
  AttributeError on a value that is not a dict; the violation is the truth value of
  \<open>"guideline_violation"\<close>; the scoring call passes no \<open>violation_count\<close>, whose default
  is 0.\<close>

definition analyze_message ::
  "pylib \<Rightarrow> MessageProcessor \<Rightarrow> message \<Rightarrow> string \<Rightarrow> error + MessageProcessor" where
  "analyze_message lib self message channel_id =
     (let text_of_message = get_or (msg_text message) [];
          user_id = get_or (msg_user message) [];
          user_name = (case msg_user_info message of None \<Rightarrow> user_id | Some ui \<Rightarrow> real_name ui);
          timestamp = get_or (msg_ts message) []
      in case analyzer self of
           None \<Rightarrow> Inl AttributeError
         | Some analyzer_analyze_post \<Rightarrow>
             let analysis = analyzer_analyze_post text_of_message in
             and_then (json_get analysis ''guideline_violation'' (JBool False)) (\<lambda>violation.
             and_then
               (if truthy violation then
                  and_then (json_get analysis ''violation_details'' (JStr [])) (\<lambda>details.
                  Inr (self\<lparr>violations := violations self @
                              [\<lparr>v_user_id = user_id, v_user_name = user_name,
                                v_text = text_of_message, v_timestamp = timestamp,
                                v_channel_id = channel_id, v_violation_reason = details\<rparr>],
                            notification_system :=
                              map_option
                                (\<lambda>sent. notify_violation lib sent message channel_id analysis)
                                (notification_system self)\<rparr>))
                else Inr self)
               (\<lambda>self1.
             and_then (json_get analysis ''is_positive'' (JBool False)) (\<lambda>positive.
             and_then
               (if truthy positive then
                  and_then (json_get analysis ''positive_details'' (JStr [])) (\<lambda>details.
                  Inr (self1\<lparr>positive_messages := positive_messages self1 @
                               [\<lparr>p_user_id = user_id, p_user_name = user_name,
                                 p_text = text_of_message, p_timestamp = timestamp,
                                 p_channel_id = channel_id, p_positive_type = details\<rparr>]\<rparr>))
                else Inr self1)
               (\<lambda>self2.
             case slack self2 of
               None \<Rightarrow> Inl AttributeError
             | Some sl \<Rightarrow>
                 let reactions = get_reactions sl channel_id timestamp;
                     reaction_count = sum_list (map (\<lambda>r. get_or (r_count r) 0) reactions)
                 in Inr (self2\<lparr>scoring :=
                           add_user_activity (scoring self2) user_id user_name 1
                             (if truthy positive then 1 else 0) reaction_count 0\<rparr>))))))"

text \<open>The loop of \<open>process_channel\<close> over the messages.\<close>

fun analyze_each ::
  "pylib \<Rightarrow> MessageProcessor \<Rightarrow> string \<Rightarrow> message list \<Rightarrow> error + MessageProcessor" where
  "analyze_each lib self channel_id [] = Inr self"
| "analyze_each lib self channel_id (message # messages) =
     (if should_analyze message then
        and_then (analyze_message lib self message channel_id) (\<lambda>self1.
        analyze_each lib self1 channel_id messages)
      else analyze_each lib self channel_id messages)"

text \<open>The dict that \<open>process_channel\<close> returns: \<open>None\<close> is the empty dict \<open>{}\<close> of the
  early return, \<open>Some\<close> a dict with the four keys.\<close>

record run_summary =
  sum_total_messages :: nat
  sum_violations_found :: nat
  sum_positive_messages :: nat
  sum_top_contributors :: "UserScore list"

definition process_channel ::
  "pylib \<Rightarrow> MessageProcessor \<Rightarrow> string \<Rightarrow> int
   \<Rightarrow> error + (run_summary option \<times> MessageProcessor)" where
  "process_channel lib self channel_id hours =
     (case slack self of
        None \<Rightarrow> Inl AttributeError
      | Some sl \<Rightarrow>
          let messages = get_channel_messages sl channel_id hours in
          if messages = [] then Inr (None, self)
          else
            let messages1 = enrich_messages_with_user_info sl messages in
            and_then (analyze_each lib self channel_id messages1) (\<lambda>self1.
            let scores = calculate_rankings (scoring self1) in
            Inr (Some \<lparr>sum_total_messages = length messages1,
                       sum_violations_found = length (violations self1),
                       sum_positive_messages = length (positive_messages self1),
                       sum_top_contributors = take 5 scores\<rparr>,
                 self1)))"

section \<open>What a run of the processor adds up to\<close>

text \<open>The result dict of the analyzer for a message, and the truth value of one of its
  keys as \<open>_analyze_message\<close> reads it (absent: \<open>False\<close>).\<close>

definition classified :: "(string \<Rightarrow> json) \<Rightarrow> message \<Rightarrow> json" where
  "classified an m = an (get_or (msg_text m) [])"

definition is_dict :: "json \<Rightarrow> bool" where
  "is_dict j = (case j of JObj kvs \<Rightarrow> True | _ \<Rightarrow> False)"

definition flag :: "json \<Rightarrow> string \<Rightarrow> bool" where
  "flag analysis key =
     (case json_get analysis key (JBool False) of Inl e \<Rightarrow> False | Inr v \<Rightarrow> truthy v)"

text \<open>The call of \<open>add_user_activity\<close> that \<open>_analyze_message\<close> makes for a message.\<close>

definition activity_of :: "SlackClient \<Rightarrow> (string \<Rightarrow> json) \<Rightarrow> string \<Rightarrow> message \<Rightarrow> activity" where
  "activity_of sl an channel_id m =
     \<lparr>a_user_id = get_or (msg_user m) [],
      a_user_name = (case msg_user_info m of
                       None \<Rightarrow> get_or (msg_user m) []
                     | Some ui \<Rightarrow> real_name ui),
      a_post_count = 1,
      a_positive_count = (if flag (classified an m) ''is_positive'' then 1 else 0),
      a_reaction_received =
        sum_list (map (\<lambda>r. get_or (r_count r) 0)
                    (get_reactions sl channel_id (get_or (msg_ts m) []))),
      a_violation_count = 0\<rparr>"

definition activities ::
  "SlackClient \<Rightarrow> (string \<Rightarrow> json) \<Rightarrow> string \<Rightarrow> message list \<Rightarrow> activity list" where
  "activities sl an channel_id messages =
     map (activity_of sl an channel_id) (filter should_analyze messages)"

definition count_flagged :: "(string \<Rightarrow> json) \<Rightarrow> string \<Rightarrow> message list \<Rightarrow> nat" where
  "count_flagged an key messages =
     length (filter (\<lambda>m. should_analyze m \<and> flag (classified an m) key) messages)"

definition fetched :: "SlackClient \<Rightarrow> string \<Rightarrow> int \<Rightarrow> message list" where
  "fetched sl channel_id hours =
     enrich_messages_with_user_info sl (get_channel_messages sl channel_id hours)"

section \<open>Example inputs\<close>

definition ex_acts :: "activity list" where
  "ex_acts =
     [\<lparr>a_user_id = ''U1'', a_user_name = ''A'', a_post_count = 1, a_positive_count = 0,
       a_reaction_received = 0, a_violation_count = 0\<rparr>,
      \<lparr>a_user_id = ''U2'', a_user_name = ''B'', a_post_count = 1, a_positive_count = 0,
       a_reaction_received = 3, a_violation_count = 0\<rparr>,
      \<lparr>a_user_id = ''U3'', a_user_name = ''C'', a_post_count = 1, a_positive_count = 1,
       a_reaction_received = 0, a_violation_count = 1\<rparr>,
      \<lparr>a_user_id = ''U4'', a_user_name = ''D'', a_post_count = 1, a_positive_count = 0,
       a_reaction_received = 0, a_violation_count = 0\<rparr>]"

text \<open>Numbers written into the \<open>"total_score"\<close> of a score file: 99 for U1, 1000 for U3,
  the key removed for the others.\<close>

definition ex_stored_totals :: "string \<Rightarrow> real option" where
  "ex_stored_totals uid =
     (if uid = ''U1'' then Some 99 else if uid = ''U3'' then Some 1000 else None)"

definition ascii_space :: "char \<Rightarrow> bool" where
  "ascii_space c = (c \<in> set [CHR 0x20, CHR 0x09, CHR 0x0A, CHR 0x0B, CHR 0x0C, CHR 0x0D])"

definition ascii_strip :: "string \<Rightarrow> string" where
  "ascii_strip s = rev (dropWhile ascii_space (rev (dropWhile ascii_space s)))"

definition ex_payload :: string where
  "ex_payload = ''{'' @ [CHR 0x22] @ ''guideline_violation'' @ [CHR 0x22] @ '': 80}''"

definition ex_parsed :: json where
  "ex_parsed = JObj [(''guideline_violation'', JInt 80)]"

definition ascii_lower :: "string \<Rightarrow> string" where
  "ascii_lower s =
     map (\<lambda>c. case map_of (zip ''ABCDEFGHIJKLMNOPQRSTUVWXYZ'' ''abcdefghijklmnopqrstuvwxyz'') c of
                None \<Rightarrow> c
              | Some l \<Rightarrow> l) s"

definition ex_lib :: pylib where
  "ex_lib = \<lparr>str_strip = ascii_strip,
            str_lower = ascii_lower,
            json_loads = (\<lambda>s. if s = ex_payload then Inr ex_parsed else Inl ValueError),
            datetime_fromtimestamp =
              (\<lambda>ts. if ts = ''1700000000.5'' then Inr 1700000000.5
                    else if ts = ''1700000001.5'' then Inr 1700000001.5
                    else Inl ValueError)\<rparr>"

definition ex_fenced :: string where
  "ex_fenced = ''Result: '' @ fence_json @ ex_payload @ fence @ [CHR 0x0A]"

definition ex_env_ok :: call_env where
  "ex_env_ok = \<lparr>sleep_extra = 0, generate_content = (\<lambda>p. Inr ex_fenced), generate_time = 1\<rparr>"

definition ex_env_down :: call_env where
  "ex_env_down = \<lparr>sleep_extra = 0.25, generate_content = (\<lambda>p. Inl DownstreamError), generate_time = 6\<rparr>"

definition ex_env_prose :: call_env where
  "ex_env_prose = \<lparr>sleep_extra = 0, generate_content = (\<lambda>p. Inr ''I cannot say.''), generate_time = 0\<rparr>"

definition ex_calls :: "(call_env \<times> string) list" where
  "ex_calls = [(ex_env_down, ''first''), (ex_env_prose, ''second''), (ex_env_down, ''third'')]"

text \<open>The end-to-end scenario: two messages, of the users U1 (A) and U2 (B); a classifier
  stub that answers in the keys \<open>_analyze_message\<close> reads; no reactions.\<close>

definition thanks_text :: string where
  "thanks_text =
     [CHR 0xE3, CHR 0x81, CHR 0x82, CHR 0xE3, CHR 0x82, CHR 0x8A, CHR 0xE3, CHR 0x81, CHR 0x8C,
      CHR 0xE3, CHR 0x81, CHR 0xA8, CHR 0xE3, CHR 0x81, CHR 0x86, CHR 0xE3, CHR 0x81, CHR 0x94,
      CHR 0xE3, CHR 0x81, CHR 0x96, CHR 0xE3, CHR 0x81, CHR 0x84, CHR 0xE3, CHR 0x81, CHR 0xBE,
      CHR 0xE3, CHR 0x81, CHR 0x99, CHR 0xEF, CHR 0xBC, CHR 0x81]"

definition insult_text :: string where
  "insult_text =
     [CHR 0xE3, CHR 0x81, CHR 0x93, CHR 0xE3, CHR 0x82, CHR 0x93, CHR 0xE3, CHR 0x81, CHR 0xAA,
      CHR 0xE7, CHR 0xB0, CHR 0xA1, CHR 0xE5, CHR 0x8D, CHR 0x98, CHR 0xE3, CHR 0x81, CHR 0xAA,
      CHR 0xE3, CHR 0x81, CHR 0x93, CHR 0xE3, CHR 0x81, CHR 0xA8, CHR 0xE3, CHR 0x82, CHR 0x82,
      CHR 0xE3, CHR 0x82, CHR 0x8F, CHR 0xE3, CHR 0x81, CHR 0x8B, CHR 0xE3, CHR 0x82, CHR 0x89,
      CHR 0xE3, CHR 0x81, CHR 0xAA, CHR 0xE3, CHR 0x81, CHR 0x84, CHR 0xE3, CHR 0x81, CHR 0xAE,
      CHR 0xEF, CHR 0xBC, CHR 0x9F]"

definition scenario_messages :: "message list" where
  "scenario_messages =
     [\<lparr>msg_text = Some thanks_text, msg_user = Some ''U1'', msg_ts = Some ''1700000000.5'',
       msg_subtype = None, msg_user_info = None\<rparr>,
      \<lparr>msg_text = Some insult_text, msg_user = Some ''U2'', msg_ts = Some ''1700000001.5'',
       msg_subtype = None, msg_user_info = None\<rparr>]"

definition scenario_slack :: SlackClient where
  "scenario_slack =
     \<lparr>get_channel_messages = (\<lambda>channel_id hours. scenario_messages),
      get_user_info =
        (\<lambda>uid. if uid = ''U1'' then
                 Some \<lparr>su_real_name = Some ''A'', su_display_name = Some ''A'', su_is_bot = Some False\<rparr>
               else if uid = ''U2'' then
                 Some \<lparr>su_real_name = Some ''B'', su_display_name = Some ''B'', su_is_bot = Some False\<rparr>
               else None),
      get_reactions = (\<lambda>channel_id ts. [])\<rparr>"

definition scenario_classifier :: "string \<Rightarrow> json" where
  "scenario_classifier t =
     (if t = thanks_text
      then JObj [(''guideline_violation'', JInt 0), (''is_positive'', JBool True)]
      else JObj [(''guideline_violation'', JInt 80), (''is_positive'', JBool False)])"

text \<open>The same stub in the keys that \<open>analyze_post\<close> asks the model for.\<close>

definition scenario_classifier_prompt_keys :: "string \<Rightarrow> json" where
  "scenario_classifier_prompt_keys t =
     (if t = thanks_text
      then JObj [(''guideline_violation'', JInt 0), (''positive_feedback'', JBool True)]
      else JObj [(''guideline_violation'', JInt 80), (''positive_feedback'', JBool False)])"

definition scenario_processor :: MessageProcessor where
  "scenario_processor = new_MessageProcessor (Some scenario_slack) (Some scenario_classifier)"

text \<open>A classifier whose answer for every text is the score 30, and one whose answer is
  a JSON array.\<close>

definition score_30_classifier :: "string \<Rightarrow> json" where
  "score_30_classifier t = JObj [(''guideline_violation'', JInt 30)]"

definition array_classifier :: "string \<Rightarrow> json" where
  "array_classifier t = JList []"

text \<open>A client whose channel has no messages.\<close>

definition quiet_slack :: SlackClient where
  "quiet_slack =
     \<lparr>get_channel_messages = (\<lambda>channel_id hours. []),
      get_user_info = (\<lambda>uid. None),
      get_reactions = (\<lambda>channel_id ts. [])\<rparr>"

text \<open>Texts for the severity: one with an urgent and a problem keyword, one with a
  problem keyword only.\<close>

definition urgent_problem_text :: string where
  "urgent_problem_text = ''NOTE '' @ [CHR 0xE7, CHR 0xB7, CHR 0x8A, CHR 0xE6, CHR 0x80, CHR 0xA5] @ '' / '' @ [CHR 0xE5, CHR 0x95, CHR 0x8F, CHR 0xE9, CHR 0xA1, CHR 0x8C]"

definition problem_only_text :: string where
  "problem_only_text = ''NOTE '' @ [CHR 0xE5, CHR 0x95, CHR 0x8F, CHR 0xE9, CHR 0xA1, CHR 0x8C]"

text \<open>A reply of the generative model that is the JSON text of an empty array, and a
  library whose \<open>json.loads\<close> parses it.\<close>

definition array_env :: call_env where
  "array_env = \<lparr>sleep_extra = 0, generate_content = (\<lambda>p. Inr ''[]''), generate_time = 1\<rparr>"

definition array_lib :: pylib where
  "array_lib = ex_lib\<lparr>json_loads := (\<lambda>s. if s = ''[]'' then Inr (JList []) else Inl ValueError)\<rparr>"

section \<open>Properties of the scoring engine\<close>

lemma dict_get_set: "dict_get (dict_set d k v) k' = (if k' = k then Some v else dict_get d k')"
  by (induction d) (auto simp: dict_get_def)

lemma keys_dict_set: "map fst (dict_set d k v) = (if k \<in> set (map fst d) then map fst d else map fst d @ [k])"
  by (induction d) (auto simp: rev_image_eqI)

lemma dict_get_None_iff: "dict_get d k = None \<longleftrightarrow> k \<notin> set (map fst d)"
  by (simp add: dict_get_def map_of_eq_None_iff)

lemma get_record_activity:
  "dict_get (record_activity users a) uid =
     (if a_user_id a = uid then
        Some (add_counts (case dict_get users uid of None \<Rightarrow> new_UserScore uid (a_user_name a) | Some u \<Rightarrow> u) [a])
      else dict_get users uid)"
  by (auto simp: record_activity_def add_user_activity_def dict_get_set add_counts_def Let_def split: option.splits)

lemma add_counts_Nil: "add_counts u [] = u"
  by (simp add: add_counts_def)

lemma add_counts_Cons: "add_counts (add_counts u [a]) acts = add_counts u (a # acts)"
  by (simp add: add_counts_def algebra_simps)

lemma get_record_all:
  "dict_get (record_all users acts) uid =
     (let mine = filter (\<lambda>a. a_user_id a = uid) acts in
      case dict_get users uid of
        Some u \<Rightarrow> Some (add_counts u mine)
      | None \<Rightarrow> (case mine of [] \<Rightarrow> None | a # _ \<Rightarrow> Some (add_counts (new_UserScore uid (a_user_name a)) mine)))"
proof (induction acts arbitrary: users)
  case Nil
  then show ?case by (simp add: record_all_def add_counts_Nil split: option.splits)
next
  case (Cons a acts)
  have step: "record_all users (a # acts) = record_all (record_activity users a) acts"
    by (simp add: record_all_def)
  show ?case
    unfolding step Cons.IH
    by (auto simp: get_record_activity Let_def add_counts_Cons split: option.splits list.splits)
qed

lemma dict_get_Some_key: "dict_get d k = Some v \<Longrightarrow> k \<in> set (map fst d)"
  using dict_get_None_iff [of d k] by auto

lemma keys_record_activity:
  "map fst (record_activity users a) =
     (if a_user_id a \<in> set (map fst users) then map fst users else map fst users @ [a_user_id a])"
proof (cases "dict_get users (a_user_id a)")
  case None
  then have notin: "a_user_id a \<notin> set (map fst users)"
    by (simp add: dict_get_None_iff)
  let ?users1 = "dict_set users (a_user_id a) (new_UserScore (a_user_id a) (a_user_name a))"
  have k1: "map fst ?users1 = map fst users @ [a_user_id a]"
    using notin by (simp add: keys_dict_set)
  have g1: "dict_get ?users1 (a_user_id a) = Some (new_UserScore (a_user_id a) (a_user_name a))"
    by (simp add: dict_get_set)
  have "map fst (record_activity users a) = map fst ?users1"
    using None g1 k1 by (simp add: record_activity_def add_user_activity_def keys_dict_set)
  then show ?thesis using k1 notin by simp
next
  case (Some u)
  then have isin: "a_user_id a \<in> set (map fst users)"
    by (rule dict_get_Some_key)
  show ?thesis
    using Some isin by (simp add: record_activity_def add_user_activity_def keys_dict_set)
qed

lemma first_seen_set: "set (first_seen xs) = set xs"
  by (induction xs) auto

lemma first_seen_distinct: "distinct (first_seen xs)"
  by (induction xs) auto

lemma keys_record_all:
  "map fst (record_all users acts) =
     map fst users @ filter (\<lambda>k. k \<notin> set (map fst users)) (first_seen (map a_user_id acts))"
proof (induction acts arbitrary: users)
  case Nil
  then show ?case by (simp add: record_all_def)
next
  case (Cons a acts)
  have step: "record_all users (a # acts) = record_all (record_activity users a) acts"
    by (simp add: record_all_def)
  show ?case
    unfolding step Cons.IH keys_record_activity
    by (auto simp: filter_id_conv first_seen_set intro!: filter_cong)
qed

lemma sorted_desc:
  "sorted_wrt (\<lambda>a b. k b \<le> k a) (py_sorted_reverse k xs)"
proof -
  have "sorted (map (\<lambda>x. - k x) (sort_key (\<lambda>x. - k x) xs))" by (rule sorted_sort_key)
  then show ?thesis
    by (simp add: py_sorted_reverse_def sorted_map sorted_wrt_iff_nth_less)
qed

lemma stable_desc:
  "filter (\<lambda>x. k x = s) (py_sorted_reverse k xs) = filter (\<lambda>x. k x = s) xs"
proof -
  have "filter (\<lambda>x. - k x = - s) (sort_key (\<lambda>x. - k x) xs) = filter (\<lambda>x. - k x = - s) xs"
    by (rule sort_key_stable)
  then show ?thesis by (simp add: py_sorted_reverse_def)
qed

lemma dict_set_fresh: "k \<notin> set (map fst d) \<Longrightarrow> dict_set d k v = d @ [(k, v)]"
  by (induction d) auto

lemma dict_set_same_key:
  "list_all (\<lambda>(k, u). user_id u = k) d \<Longrightarrow> user_id v = k \<Longrightarrow>
   list_all (\<lambda>(k, u). user_id u = k) (dict_set d k v)"
  by (induction d) auto

lemma users_ok_dict_set:
  "users_ok d \<Longrightarrow> user_id v = k \<Longrightarrow> users_ok (dict_set d k v)"
  unfolding users_ok_def
  by (simp add: dict_set_same_key keys_dict_set)

lemma get_user_id:
  "list_all (\<lambda>(k, u). user_id u = k) d \<Longrightarrow> dict_get d k = Some u \<Longrightarrow> user_id u = k"
  by (induction d) (auto simp: dict_get_def split: if_splits)

lemma users_ok_record_activity: "users_ok users \<Longrightarrow> users_ok (record_activity users a)"
proof -
  assume ok: "users_ok users"
  let ?k = "a_user_id a"
  let ?users1 = "case dict_get users ?k of
                   None \<Rightarrow> dict_set users ?k (new_UserScore ?k (a_user_name a))
                 | Some _ \<Rightarrow> users"
  have ok1: "users_ok ?users1"
    using ok by (auto simp: users_ok_dict_set new_UserScore_def split: option.splits)
  show ?thesis
  proof (cases "dict_get ?users1 ?k")
    case None
    then show ?thesis using ok1
      by (simp add: record_activity_def add_user_activity_def)
  next
    case (Some u)
    have "user_id u = ?k"
      using ok1 Some get_user_id unfolding users_ok_def by blast
    then show ?thesis using ok1 Some
      by (simp add: record_activity_def add_user_activity_def users_ok_dict_set)
  qed
qed

lemma users_ok_record_all: "users_ok users \<Longrightarrow> users_ok (record_all users acts)"
  unfolding record_all_def
  by (induction acts arbitrary: users) (simp_all add: users_ok_record_activity)

lemma users_ok_new: "users_ok new_ScoringSystem"
  by (simp add: users_ok_def new_ScoringSystem_def)

lemma load_items_saved:
  "distinct (map fst (acc @ users)) \<Longrightarrow> list_all (\<lambda>(k, u). user_id u = k) users \<Longrightarrow>
   load_items acc (map (\<lambda>(uid, score). (uid, score_to_data score)) users) = (acc @ users, None)"
proof (induction users arbitrary: acc)
  case Nil
  then show ?case by simp
next
  case (Cons p users)
  obtain k u where p: "p = (k, u)" by (cases p)
  have fresh: "k \<notin> set (map fst acc)" using Cons.prems(1) p by auto
  have uk: "user_id u = k" using Cons.prems(2) p by simp
  have rebuilt:
    "\<lparr>user_id = k, user_name = user_name u, post_count = post_count u,
      positive_count = positive_count u, reaction_count = reaction_count u,
      violation_count = violation_count u, total_score = total_score u\<rparr> = u"
    using uk by simp
  have d: "distinct (map fst ((acc @ [(k, u)]) @ users))" using Cons.prems(1) p by simp
  have r: "list_all (\<lambda>(k, u). user_id u = k) users" using Cons.prems(2) by simp
  show ?case
    using Cons.IH [OF d r] fresh
    by (simp add: p score_to_data_def get_or_def rebuilt dict_set_fresh)
qed

lemma load_save:
  "users_ok users \<Longrightarrow> load_from_file users' path (save_to_file users path fs) = (users, None)"
  using load_items_saved [of "[]" users]
  by (simp add: load_from_file_def save_to_file_def users_ok_def)

text \<open>
  C3. Calls of \<open>add_user_activity\<close> accumulate. Starting from an engine that has not seen
  the user id, after any sequence of calls (calls for other users may come in between) the
  user's record holds, in each of the four counts, the sum of that argument over the
  user's calls, and the user name of the user's first call: later names are ignored.
\<close>

theorem add_user_activity_accumulates:
  assumes "dict_get users uid = None"
    and "mine = filter (\<lambda>a. a_user_id a = uid) acts"
    and "mine \<noteq> []"
  shows "dict_get (record_all users acts) uid =
           Some \<lparr>user_id = uid, user_name = a_user_name (hd mine),
                 post_count = sum_list (map a_post_count mine),
                 positive_count = sum_list (map a_positive_count mine),
                 reaction_count = sum_list (map a_reaction_received mine),
                 violation_count = sum_list (map a_violation_count mine),
                 total_score = 0\<rparr>"
proof -
  obtain a rest where mine: "filter (\<lambda>a. a_user_id a = uid) acts = a # rest"
    using assms(2,3) by (cases mine) (simp, metis)
  have "dict_get (record_all users acts) uid
          = Some (add_counts (new_UserScore uid (a_user_name a)) (a # rest))"
    using assms(1) mine by (simp add: get_record_all)
  then show ?thesis
    using assms(2) mine by (simp add: add_counts_def new_UserScore_def)
qed

theorem add_user_activity_accumulates_witness:
  "dict_get new_ScoringSystem ''U1'' = None \<and>
   dict_get
     (record_all new_ScoringSystem
        [\<lparr>a_user_id = ''U1'', a_user_name = ''A'', a_post_count = 1, a_positive_count = 1,
          a_reaction_received = 0, a_violation_count = 0\<rparr>,
         \<lparr>a_user_id = ''U2'', a_user_name = ''B'', a_post_count = 1, a_positive_count = 0,
          a_reaction_received = 4, a_violation_count = 0\<rparr>,
         \<lparr>a_user_id = ''U1'', a_user_name = ''Z'', a_post_count = 2, a_positive_count = 0,
          a_reaction_received = 3, a_violation_count = 1\<rparr>]) ''U1'' =
     Some \<lparr>user_id = ''U1'', user_name = ''A'', post_count = 3, positive_count = 1,
           reaction_count = 3, violation_count = 1, total_score = 0\<rparr>"
proof -
  have none: "dict_get new_ScoringSystem ''U1'' = None"
    by (simp add: dict_get_def new_ScoringSystem_def)
  show ?thesis
    using none add_user_activity_accumulates [OF none refl, of
        "[\<lparr>a_user_id = ''U1'', a_user_name = ''A'', a_post_count = 1, a_positive_count = 1,
          a_reaction_received = 0, a_violation_count = 0\<rparr>,
         \<lparr>a_user_id = ''U2'', a_user_name = ''B'', a_post_count = 1, a_positive_count = 0,
          a_reaction_received = 4, a_violation_count = 0\<rparr>,
         \<lparr>a_user_id = ''U1'', a_user_name = ''Z'', a_post_count = 2, a_positive_count = 0,
          a_reaction_received = 3, a_violation_count = 1\<rparr>]"]
    by simp
qed

text \<open>
  C4. \<open>calculate_rankings\<close> returns all records of the engine, in descending order of
  the total score post_count * 1.0 + positive_count * 5.0 + reaction_count * 2.0 -
  violation_count * 10.0; records with equal scores keep the order of the dict's values,
  and that order is the order in which the users' first activities were recorded.
\<close>

theorem calculate_rankings_sorted_stable:
  "mset (calculate_rankings users) = mset (dict_values users) \<and>
   sorted_wrt
     (\<lambda>a b. real_of_int (post_count b) * 1.0 + real_of_int (positive_count b) * 5.0
          + real_of_int (reaction_count b) * 2.0 - real_of_int (violation_count b) * 10.0
        \<le> real_of_int (post_count a) * 1.0 + real_of_int (positive_count a) * 5.0
          + real_of_int (reaction_count a) * 2.0 - real_of_int (violation_count a) * 10.0)
     (calculate_rankings users) \<and>
   (\<forall>s. filter (\<lambda>u. real_of_int (post_count u) * 1.0 + real_of_int (positive_count u) * 5.0
          + real_of_int (reaction_count u) * 2.0 - real_of_int (violation_count u) * 10.0 = s) (calculate_rankings users)
        = filter (\<lambda>u. real_of_int (post_count u) * 1.0 + real_of_int (positive_count u) * 5.0
          + real_of_int (reaction_count u) * 2.0 - real_of_int (violation_count u) * 10.0 = s) (dict_values users)) \<and>
   map user_id (dict_values (record_all new_ScoringSystem acts)) = first_seen (map a_user_id acts)"
proof -
  have formula: "calculate_total_score = (\<lambda>u. real_of_int (post_count u) * 1.0 + real_of_int (positive_count u) * 5.0
          + real_of_int (reaction_count u) * 2.0 - real_of_int (violation_count u) * 10.0)"
    by (rule ext) (simp add: calculate_total_score_def)
  have perm: "mset (calculate_rankings users) = mset (dict_values users)"
    by (simp add: calculate_rankings_def py_sorted_reverse_def)
  have desc: "sorted_wrt (\<lambda>a b. calculate_total_score a \<ge> calculate_total_score b)
     (calculate_rankings users)"
    unfolding calculate_rankings_def by (rule sorted_desc)
  have stable: "\<forall>s. filter (\<lambda>u. calculate_total_score u = s) (calculate_rankings users)
        = filter (\<lambda>u. calculate_total_score u = s) (dict_values users)"
    unfolding calculate_rankings_def by (simp add: stable_desc)
  have ok: "users_ok (record_all new_ScoringSystem acts)"
    by (simp add: users_ok_record_all users_ok_new)
  have ids: "map user_id (dict_values d) = map fst d"
    if "list_all (\<lambda>(k, u). user_id u = k) d" for d :: scoring_system
    using that by (induction d) (auto simp: dict_values_def)
  have "map user_id (dict_values (record_all new_ScoringSystem acts))
          = map fst (record_all new_ScoringSystem acts)"
    using ok ids unfolding users_ok_def by blast
  also have "\<dots> = first_seen (map a_user_id acts)"
    by (simp add: keys_record_all new_ScoringSystem_def)
  finally have order: "map user_id (dict_values (record_all new_ScoringSystem acts))
          = first_seen (map a_user_id acts)" .
  show ?thesis
    using perm desc [unfolded formula] stable [unfolded formula] order by blast
qed

lemma ex_users: "record_all new_ScoringSystem ex_acts =
  [(''U1'', \<lparr>user_id = ''U1'', user_name = ''A'', post_count = 1, positive_count = 0,
           reaction_count = 0, violation_count = 0, total_score = 0\<rparr>),
   (''U2'', \<lparr>user_id = ''U2'', user_name = ''B'', post_count = 1, positive_count = 0,
           reaction_count = 3, violation_count = 0, total_score = 0\<rparr>),
   (''U3'', \<lparr>user_id = ''U3'', user_name = ''C'', post_count = 1, positive_count = 1,
           reaction_count = 0, violation_count = 1, total_score = 0\<rparr>),
   (''U4'', \<lparr>user_id = ''U4'', user_name = ''D'', post_count = 1, positive_count = 0,
           reaction_count = 0, violation_count = 0, total_score = 0\<rparr>)]"
  by (simp add: ex_acts_def record_all_def record_activity_def add_user_activity_def
        new_ScoringSystem_def dict_get_def new_UserScore_def)

lemma ex_rankings: "calculate_rankings (record_all new_ScoringSystem ex_acts) =
  [\<lparr>user_id = ''U2'', user_name = ''B'', post_count = 1, positive_count = 0,
    reaction_count = 3, violation_count = 0, total_score = 0\<rparr>,
   \<lparr>user_id = ''U1'', user_name = ''A'', post_count = 1, positive_count = 0,
    reaction_count = 0, violation_count = 0, total_score = 0\<rparr>,
   \<lparr>user_id = ''U4'', user_name = ''D'', post_count = 1, positive_count = 0,
    reaction_count = 0, violation_count = 0, total_score = 0\<rparr>,
   \<lparr>user_id = ''U3'', user_name = ''C'', post_count = 1, positive_count = 1,
    reaction_count = 0, violation_count = 1, total_score = 0\<rparr>]"
  by (simp add: ex_users calculate_rankings_def py_sorted_reverse_def dict_values_def
        calculate_total_score_def)

theorem calculate_rankings_sorted_stable_witness:
  "map user_id (calculate_rankings (record_all new_ScoringSystem ex_acts))
     = [''U2'', ''U1'', ''U4'', ''U3''] \<and>
   map (\<lambda>u. real_of_int (post_count u) * 1.0 + real_of_int (positive_count u) * 5.0
          + real_of_int (reaction_count u) * 2.0 - real_of_int (violation_count u) * 10.0)
     (calculate_rankings (record_all new_ScoringSystem ex_acts)) = [7, 1, 1, - 4] \<and>
   sorted_wrt
     (\<lambda>a b. real_of_int (post_count b) * 1.0 + real_of_int (positive_count b) * 5.0
          + real_of_int (reaction_count b) * 2.0 - real_of_int (violation_count b) * 10.0
        \<le> real_of_int (post_count a) * 1.0 + real_of_int (positive_count a) * 5.0
          + real_of_int (reaction_count a) * 2.0 - real_of_int (violation_count a) * 10.0)
     (calculate_rankings (record_all new_ScoringSystem ex_acts)) \<and>
   map user_id (dict_values (record_all new_ScoringSystem ex_acts))
     = [''U1'', ''U2'', ''U3'', ''U4'']"
  using calculate_rankings_sorted_stable [of "record_all new_ScoringSystem ex_acts" ex_acts]
  by (simp add: ex_rankings) (simp add: ex_users dict_values_def)

lemma score_ignores_attribute:
  "calculate_total_score (u\<lparr>total_score := x\<rparr>) = calculate_total_score u"
  by (simp add: calculate_total_score_def)

lemma insort_key_map:
  "(\<And>y. f (h y) = f y) \<Longrightarrow> insort_key f (h x) (map h xs) = map h (insort_key f x xs)"
  by (induction xs) simp_all

lemma sort_key_map:
  "(\<And>y. f (h y) = f y) \<Longrightarrow> sort_key f (map h xs) = map h (sort_key f xs)"
  by (induction xs) (simp_all add: insort_key_map)

lemma rankings_ignore_attribute:
  "calculate_rankings (map (\<lambda>(k, u). (k, u\<lparr>total_score := t k\<rparr>)) users)
     = map (\<lambda>u. u\<lparr>total_score := t (user_id u)\<rparr>) (calculate_rankings users)"
  if "list_all (\<lambda>(k, u). user_id u = k) users"
proof -
  have vals: "dict_values (map (\<lambda>(k, u). (k, u\<lparr>total_score := t k\<rparr>)) users)
                = map (\<lambda>u. u\<lparr>total_score := t (user_id u)\<rparr>) (dict_values users)"
    using that by (induction users) (auto simp: dict_values_def)
  show ?thesis
    unfolding calculate_rankings_def py_sorted_reverse_def vals
    by (rule sort_key_map) (simp add: score_ignores_attribute)
qed

lemma load_items_tampered:
  "distinct (map fst (acc @ users)) \<Longrightarrow> list_all (\<lambda>(k, u). user_id u = k) users \<Longrightarrow>
   load_items acc (with_stored_totals g (map (\<lambda>(uid, score). (uid, score_to_data score)) users))
     = (acc @ map (\<lambda>(k, u). (k, u\<lparr>total_score := get_or (g k) 0\<rparr>)) users, None)"
proof (induction users arbitrary: acc)
  case Nil
  then show ?case by (simp add: with_stored_totals_def)
next
  case (Cons p users)
  obtain k u where p: "p = (k, u)" by (cases p)
  have fresh: "k \<notin> set (map fst acc)" using Cons.prems(1) p by auto
  have uk: "user_id u = k" using Cons.prems(2) p by simp
  have rebuilt:
    "\<lparr>user_id = k, user_name = user_name u, post_count = post_count u,
      positive_count = positive_count u, reaction_count = reaction_count u,
      violation_count = violation_count u, total_score = x\<rparr> = u\<lparr>total_score := x\<rparr>" for x
    using uk by simp
  have d: "distinct (map fst ((acc @ [(k, u\<lparr>total_score := get_or (g k) 0\<rparr>)]) @ users))"
    using Cons.prems(1) p by simp
  have r: "list_all (\<lambda>(k, u). user_id u = k) users" using Cons.prems(2) by simp
  show ?case
    using Cons.IH [OF d r] fresh
    by (simp add: p score_to_data_def get_or_def rebuilt dict_set_fresh with_stored_totals_def)
qed

text \<open>
  C5. \<open>load_from_file\<close> after \<open>save_to_file\<close> gives back the same engine and no error, so
  its rankings are identical to the original's. The score the rankings are built on is
  computed from the counts and never taken from the file: whatever number the file holds
  as \<open>"total_score"\<close> of a user, or none, the loaded engine ranks the same users in the
  same order, with the same counts, and each by the score post_count * 1.0 +
  positive_count * 5.0 + reaction_count * 2.0 - violation_count * 10.0 of its counts.
\<close>

theorem save_load_round_trip:
  assumes "users_ok users"
    and "save_to_file users path fs path = Some data"
  shows "load_from_file users' path (save_to_file users path fs) = (users, None) \<and>
         calculate_rankings (fst (load_from_file users' path (save_to_file users path fs)))
           = calculate_rankings users \<and>
         snd (load_from_file users' path (fs(path \<mapsto> with_stored_totals g data))) = None \<and>
         map (\<lambda>u. u\<lparr>total_score := 0\<rparr>)
             (calculate_rankings
                (fst (load_from_file users' path (fs(path \<mapsto> with_stored_totals g data)))))
           = map (\<lambda>u. u\<lparr>total_score := 0\<rparr>) (calculate_rankings users) \<and>
         map calculate_total_score
             (calculate_rankings
                (fst (load_from_file users' path (fs(path \<mapsto> with_stored_totals g data)))))
           = map (\<lambda>u. real_of_int (post_count u) * 1.0 + real_of_int (positive_count u) * 5.0
          + real_of_int (reaction_count u) * 2.0 - real_of_int (violation_count u) * 10.0)
               (calculate_rankings users)"
proof -
  have data: "data = map (\<lambda>(uid, score). (uid, score_to_data score)) users"
    using assms(2) by (simp add: save_to_file_def)
  have keys: "list_all (\<lambda>(k, u). user_id u = k) users" and dist: "distinct (map fst ([] @ users))"
    using assms(1) by (simp_all add: users_ok_def)
  let ?loaded = "map (\<lambda>(k, u). (k, u\<lparr>total_score := get_or (g k) 0\<rparr>)) users"
  have tampered: "load_from_file users' path (fs(path \<mapsto> with_stored_totals g data))
                    = (?loaded, None)"
    using load_items_tampered [OF dist keys, of g] by (simp add: load_from_file_def data)
  have ranks: "calculate_rankings ?loaded
                 = map (\<lambda>u. u\<lparr>total_score := get_or (g (user_id u)) 0\<rparr>) (calculate_rankings users)"
    using keys by (rule rankings_ignore_attribute)
  have same: "map (\<lambda>u. u\<lparr>total_score := 0\<rparr>) (calculate_rankings ?loaded)
                = map (\<lambda>u. u\<lparr>total_score := 0\<rparr>) (calculate_rankings users)"
    unfolding ranks by simp
  have scores: "map calculate_total_score (calculate_rankings ?loaded)
                  = map (\<lambda>u. real_of_int (post_count u) * 1.0 + real_of_int (positive_count u) * 5.0
          + real_of_int (reaction_count u) * 2.0 - real_of_int (violation_count u) * 10.0)
                      (calculate_rankings users)"
    unfolding ranks by (simp add: calculate_total_score_def)
  show ?thesis
    using load_save [OF assms(1), of users' path fs] tampered same scores by simp
qed

theorem save_load_round_trip_witness:
  "users_ok (record_all new_ScoringSystem ex_acts) \<and>
   (\<exists>data.
      save_to_file (record_all new_ScoringSystem ex_acts) ''data/scores.json'' (\<lambda>_. None)
        ''data/scores.json'' = Some data \<and>
      map (\<lambda>(uid, sd). (uid, sd_total_score sd)) (with_stored_totals ex_stored_totals data)
        = [(''U1'', Some 99), (''U2'', None), (''U3'', Some 1000), (''U4'', None)] \<and>
      load_from_file [] ''data/scores.json''
          (save_to_file (record_all new_ScoringSystem ex_acts) ''data/scores.json'' (\<lambda>_. None))
        = (record_all new_ScoringSystem ex_acts, None) \<and>
      map user_id
          (calculate_rankings
             (fst (load_from_file [] ''data/scores.json''
                     ((\<lambda>_. None)(''data/scores.json'' \<mapsto> with_stored_totals ex_stored_totals data)))))
        = [''U2'', ''U1'', ''U4'', ''U3''] \<and>
      map calculate_total_score
          (calculate_rankings
             (fst (load_from_file [] ''data/scores.json''
                     ((\<lambda>_. None)(''data/scores.json'' \<mapsto> with_stored_totals ex_stored_totals data)))))
        = [7, 1, 1, - 4])"
proof -
  have ok: "users_ok (record_all new_ScoringSystem ex_acts)"
    by (simp add: ex_users users_ok_def)
  define data where
    "data = map (\<lambda>(uid, score). (uid, score_to_data score)) (record_all new_ScoringSystem ex_acts)"
  have saved: "save_to_file (record_all new_ScoringSystem ex_acts) ''data/scores.json'' (\<lambda>_. None)
        ''data/scores.json'' = Some data"
    by (simp add: save_to_file_def data_def)
  have stored: "map (\<lambda>(uid, sd). (uid, sd_total_score sd)) (with_stored_totals ex_stored_totals data)
        = [(''U1'', Some 99), (''U2'', None), (''U3'', Some 1000), (''U4'', None)]"
    by (simp add: data_def ex_users with_stored_totals_def ex_stored_totals_def)
  note rt = save_load_round_trip [OF ok saved, of "[]" ex_stored_totals]
  have ids: "map user_id (map (\<lambda>u. u\<lparr>total_score := 0\<rparr>) xs) = map user_id xs"
    for xs :: "UserScore list"
    by simp
  have order: "map user_id
          (calculate_rankings
             (fst (load_from_file [] ''data/scores.json''
                     ((\<lambda>_. None)(''data/scores.json'' \<mapsto> with_stored_totals ex_stored_totals data)))))
        = [''U2'', ''U1'', ''U4'', ''U3'']"
    using rt ids [of "calculate_rankings
             (fst (load_from_file [] ''data/scores.json''
                     ((\<lambda>_. None)(''data/scores.json'' \<mapsto> with_stored_totals ex_stored_totals data))))"]
    by (simp add: ex_rankings)
  have scores: "map calculate_total_score
          (calculate_rankings
             (fst (load_from_file [] ''data/scores.json''
                     ((\<lambda>_. None)(''data/scores.json'' \<mapsto> with_stored_totals ex_stored_totals data)))))
        = [7, 1, 1, - 4]"
    using rt by (simp add: ex_rankings)
  show ?thesis
    using ok saved stored rt order scores by auto
qed

section \<open>Properties of the classification client\<close>

lemma py_in_sublist: "py_in sub s \<longleftrightarrow> sublist sub s"
  by (induction s) (auto simp: sublist_Cons_right)

lemma split_nonempty: "py_split_from sep cur s \<noteq> []"
  by (induction sep cur s rule: py_split_from.induct) auto

lemma split_no_sep: "\<not> sublist sep s \<Longrightarrow> py_split_from sep cur s = [cur @ s]"
  by (induction s arbitrary: cur) (auto simp: sublist_Cons_right)

lemma prefix_in_front:
  assumes "prefix sep (p # ps @ sep @ rest)"
  shows "prefix sep (p # ps @ butlast sep)"
proof (cases "sep = []")
  case True
  then show ?thesis by simp
next
  case False
  then have sep: "sep = butlast sep @ [last sep]" by simp
  let ?n = "length (p # ps @ butlast sep)"
  have front: "take ?n (p # ps @ sep @ rest) = p # ps @ butlast sep"
    by (subst sep) simp
  have le: "length sep \<le> ?n" by simp
  have "sep = take (length sep) (p # ps @ sep @ rest)"
    using assms by (metis append_eq_conv_conj prefix_def)
  also have "\<dots> = take (length sep) (take ?n (p # ps @ sep @ rest))"
    using le by (simp only: take_take min.absorb1)
  also have "\<dots> = take (length sep) (p # ps @ butlast sep)"
    by (simp only: front)
  finally have "sep = take (length sep) (p # ps @ butlast sep)" .
  then show ?thesis by (metis take_is_prefix)
qed

lemma split_first:
  "sep \<noteq> [] \<Longrightarrow> \<not> sublist sep (pre @ butlast sep) \<Longrightarrow>
   py_split_from sep cur (pre @ sep @ rest) = (cur @ pre) # py_split_from sep [] rest"
proof (induction pre arbitrary: cur)
  case Nil
  then obtain x xs where sep: "sep = x # xs" by (cases sep) auto
  have "py_split_from sep cur ((x # xs) @ rest) = cur # py_split_from sep [] rest"
    using sep by simp
  then show ?case using sep by simp
next
  case (Cons p ps)
  have np: "\<not> prefix sep (p # ps @ sep @ rest)"
    using Cons.prems(2) prefix_in_front [of sep p ps rest] by auto
  have ns: "\<not> sublist sep (ps @ butlast sep)"
    using Cons.prems(2) by (simp add: sublist_Cons_right)
  show ?case
    using np Cons.IH [OF Cons.prems(1) ns, of "cur @ [p]"] by simp
qed

lemma split_two_parts:
  "sep \<noteq> [] \<Longrightarrow> sublist sep s \<Longrightarrow> 2 \<le> length (py_split_from sep cur s)"
proof (induction s arbitrary: cur)
  case Nil
  then show ?case by simp
next
  case (Cons x xs)
  show ?case
  proof (cases "prefix sep (x # xs)")
    case True
    have "1 \<le> length (py_split_from sep [] (drop (length sep) (x # xs)))"
      using split_nonempty [of sep "[]" "drop (length sep) (x # xs)"]
      by (cases "py_split_from sep [] (drop (length sep) (x # xs))") auto
    then show ?thesis using True Cons.prems(1) by simp
  next
    case False
    then have "sublist sep xs" using Cons.prems(2) by (simp add: sublist_Cons_right)
    then show ?thesis using False Cons.IH [OF Cons.prems(1)] by simp
  qed
qed

lemma fence_nonempty: "fence \<noteq> []" "fence_json \<noteq> []"
  by (simp_all add: fence_def fence_json_def)

lemma fence_in_fence_json: "sublist fence fence_json"
  unfolding fence_def fence_json_def by (rule sublist_append_rightI)

lemma index_0: "xs \<noteq> [] \<Longrightarrow> py_index xs 0 = Inr (hd xs)"
  by (cases xs) (simp_all add: py_index_def)

lemma index_1: "2 \<le> length xs \<Longrightarrow> py_index xs (Suc 0) = Inr (xs ! Suc 0)"
  by (simp add: py_index_def)

lemma unfence_total:
  assumes "sep \<noteq> []" "sublist sep t"
  shows "\<exists>payload.
           and_then (py_split t sep) (\<lambda>parts.
           and_then (py_index parts 1) (\<lambda>inner.
           and_then (py_split inner fence) (\<lambda>pieces.
           py_index pieces 0))) = Inr payload"
proof -
  have two: "2 \<le> length (py_split_from sep [] t)"
    using assms by (rule split_two_parts)
  have "py_split_from fence [] (py_split_from sep [] t ! 1) \<noteq> []"
    by (rule split_nonempty)
  then show ?thesis
    using assms(1) two fence_nonempty(1)
    by (simp add: py_split_def and_then_def index_1 index_0)
qed

lemma strip_fences_total: "\<exists>payload. strip_fences t = Inr payload"
proof (cases "py_in fence_json t")
  case True
  then show ?thesis
    using unfence_total [OF fence_nonempty(2), of t]
    by (simp add: strip_fences_def py_in_sublist)
next
  case False
  then show ?thesis
    using unfence_total [OF fence_nonempty(1), of t]
    by (simp add: strip_fences_def py_in_sublist)
qed

lemma strip_fences_plain: "\<not> sublist fence t \<Longrightarrow> strip_fences t = Inr t"
proof -
  assume n: "\<not> sublist fence t"
  then have "\<not> sublist fence_json t"
    using fence_in_fence_json sublist_order.order.trans by blast
  then show ?thesis using n by (simp add: strip_fences_def py_in_sublist)
qed

lemma no_sep_front: "\<not> sublist sep (xs @ butlast sep) \<Longrightarrow> \<not> sublist sep xs"
  by (metis sublist_append_rightI sublist_order.order.trans)

lemma strip_fences_json_block:
  assumes a: "\<not> sublist fence_json (pre @ butlast fence_json)"
    and b: "\<not> sublist fence (body @ butlast fence)"
    and c: "\<not> sublist fence_json (body @ fence @ rest)"
  shows "strip_fences (pre @ fence_json @ body @ fence @ rest) = Inr body"
proof -
  have isin: "py_in fence_json (pre @ fence_json @ body @ fence @ rest)"
    by (simp add: py_in_sublist)
  have outer: "py_split_from fence_json [] (pre @ fence_json @ body @ fence @ rest)
                 = [pre, body @ fence @ rest]"
    using split_first [OF fence_nonempty(2) a, of "[]" "body @ fence @ rest"]
          split_no_sep [OF c, of "[]"] by simp
  have inner: "py_split_from fence [] (body @ fence @ rest) = body # py_split_from fence [] rest"
    using split_first [OF fence_nonempty(1) b, of "[]" rest] by simp
  show ?thesis
    unfolding strip_fences_def
    using isin outer inner fence_nonempty
    by (simp add: py_split_def and_then_def py_index_def)
qed

lemma strip_fences_bare_block:
  assumes n: "\<not> sublist fence_json (pre @ fence @ body @ fence @ rest)"
    and a: "\<not> sublist fence (pre @ butlast fence)"
    and b: "\<not> sublist fence (body @ butlast fence)"
  shows "strip_fences (pre @ fence @ body @ fence @ rest) = Inr body"
proof -
  have notj: "\<not> py_in fence_json (pre @ fence @ body @ fence @ rest)"
    using n by (simp add: py_in_sublist)
  have isin: "py_in fence (pre @ fence @ body @ fence @ rest)"
    by (simp add: py_in_sublist)
  have inner: "py_split_from fence [] (body @ fence @ rest) = body # py_split_from fence [] rest"
    using split_first [OF fence_nonempty(1) b, of "[]" rest] by simp
  have outer: "py_split_from fence [] (pre @ fence @ body @ fence @ rest)
                 = pre # body # py_split_from fence [] rest"
    using split_first [OF fence_nonempty(1) a, of "[]" "body @ fence @ rest"] inner by simp
  have again: "py_split_from fence [] body = [body]"
    using split_no_sep [OF no_sep_front [OF b], of "[]"] by simp
  show ?thesis
    unfolding strip_fences_def
    using notj isin outer again fence_nonempty
    by (simp add: py_split_def and_then_def py_index_def)
qed

lemma analyze_post_result:
  "\<exists>self1 now1.
     analyze_post lib env (self, now) post =
       Inr (case request_and_parse lib env post of Inl e \<Rightarrow> safe_default | Inr parsed \<Rightarrow> parsed,
            self1, now1)"
  by (simp add: analyze_post_def time_sleep_def and_then_def Let_def)

lemma request_and_parse_cases:
  "request_and_parse lib env post =
     (case generate_content env (prompt post) of
        Inl e \<Rightarrow> Inl e
      | Inr response \<Rightarrow>
          (case strip_fences (str_strip lib response) of
             Inl e \<Rightarrow> Inl e
           | Inr payload \<Rightarrow> json_loads lib payload))"
  by (simp add: request_and_parse_def and_then_def split: sum.splits)

lemma analyze_post_spacing:
  assumes "0 \<le> sleep_extra env"
  shows "\<exists>result self1.
           analyze_post lib env (self, now) post
             = Inr (result, self1, last_request_time self1 + generate_time env) \<and>
           request_interval self1 = request_interval self \<and>
           last_request_time self + request_interval self \<le> last_request_time self1"
  using assms
  by (simp add: analyze_post_def time_sleep_def and_then_def Let_def)

lemma span_of_spaced:
  "successively (\<lambda>s t. s + d \<le> t) ts \<Longrightarrow> ts \<noteq> [] \<Longrightarrow>
   hd ts + real (length ts - 1) * d \<le> last (ts :: real list)"
proof (induction ts rule: induct_list012)
  case 1
  then show ?case by simp
next
  case (2 x)
  then show ?case by simp
next
  case (3 x y zs)
  then have "y + real (length (y # zs) - 1) * d \<le> last (y # zs)" and "x + d \<le> y"
    by simp_all
  then show ?case by (simp add: algebra_simps)
qed

lemma analyze_posts_spaced:
  assumes "list_all (\<lambda>(env, post). 0 \<le> sleep_extra env) calls"
  shows "\<exists>results st'.
           analyze_posts lib (self, now) calls = Inr (results, st') \<and>
           length results = length calls \<and>
           (results = [] \<or> last_request_time self + request_interval self \<le> snd (hd results)) \<and>
           successively (\<lambda>s t. s + request_interval self \<le> t) (map snd results)"
  using assms
proof (induction calls arbitrary: self now)
  case Nil
  then show ?case by simp
next
  case (Cons c calls)
  obtain env post where c: "c = (env, post)" by (cases c)
  have e: "0 \<le> sleep_extra env" and rest: "list_all (\<lambda>(env, post). 0 \<le> sleep_extra env) calls"
    using Cons.prems c by simp_all
  obtain result self1 where
    one: "analyze_post lib env (self, now) post
            = Inr (result, self1, last_request_time self1 + generate_time env)"
    and iv: "request_interval self1 = request_interval self"
    and sp: "last_request_time self + request_interval self \<le> last_request_time self1"
    using analyze_post_spacing [OF e] by blast
  obtain results st' where
    run: "analyze_posts lib (self1, last_request_time self1 + generate_time env) calls
            = Inr (results, st')"
    and len: "length results = length calls"
    and first: "results = [] \<or> last_request_time self1 + request_interval self1 \<le> snd (hd results)"
    and succ: "successively (\<lambda>s t. s + request_interval self1 \<le> t) (map snd results)"
    using Cons.IH [OF rest] by blast
  have whole: "analyze_posts lib (self, now) (c # calls)
                 = Inr ((result, last_request_time self1) # results, st')"
    using one run by (simp add: c and_then_def)
  have succ': "successively (\<lambda>s t. s + request_interval self \<le> t)
                 (map snd ((result, last_request_time self1) # results))"
    using first succ iv by (cases results) (simp_all add: successively_Cons)
  show ?case
    using whole len sp succ' by simp
qed

lemma ex_no_fence: "\<not> sublist fence ex_payload"
  by (simp add: fence_def ex_payload_def sublist_code)

lemma ex_hyps:
  "\<not> sublist fence_json (''Result: '' @ butlast fence_json)"
  "\<not> sublist fence (ex_payload @ butlast fence)"
  "\<not> sublist fence_json (ex_payload @ fence @ [CHR 0x0A])"
  "\<not> sublist fence_json (''Result: '' @ fence @ ex_payload @ fence @ [CHR 0x0A])"
  "\<not> sublist fence (''Result: '' @ butlast fence)"
  by (simp_all add: fence_def fence_json_def ex_payload_def sublist_code)

text \<open>
  C6. \<open>analyze_post\<close> returns for every input: nothing is raised. When the generate call
  fails, or the JSON parse fails, the result is exactly the dict with
  \<open>guideline_violation\<close> 0, \<open>violation_reason\<close> None, \<open>positive_feedback\<close> False,
  \<open>positive_type\<close> None and \<open>contribution_score\<close> 0; otherwise it is what \<open>json.loads\<close>
  makes of the stripped response text with its fences removed. Removing the fences never
  fails; it leaves a text without fences as it is, and returns the body of a \<open>json\<close>
  block and of a bare block.
\<close>

theorem analyze_post_never_raises:
  "(let fallback = JObj [(''guideline_violation'', JInt 0), (''violation_reason'', JNull),
                   (''positive_feedback'', JBool False), (''positive_type'', JNull),
                   (''contribution_score'', JInt 0)]
    in \<exists>self1 now1.
         analyze_post lib env (self, now) post =
           Inr (case generate_content env (prompt post) of
                  Inl e \<Rightarrow> fallback
                | Inr response \<Rightarrow>
                    (case strip_fences (str_strip lib response) of
                       Inl e \<Rightarrow> fallback
                     | Inr payload \<Rightarrow>
                         (case json_loads lib payload of
                            Inl e \<Rightarrow> fallback
                          | Inr parsed \<Rightarrow> parsed)),
                self1, now1)) \<and>
   (\<exists>payload. strip_fences t = Inr payload) \<and>
   (\<not> sublist fence t \<longrightarrow> strip_fences t = Inr t) \<and>
   (\<not> sublist fence_json (pre @ butlast fence_json) \<and>
    \<not> sublist fence (body @ butlast fence) \<and>
    \<not> sublist fence_json (body @ fence @ rest)
      \<longrightarrow> strip_fences (pre @ fence_json @ body @ fence @ rest) = Inr body) \<and>
   (\<not> sublist fence_json (pre @ fence @ body @ fence @ rest) \<and>
    \<not> sublist fence (pre @ butlast fence) \<and>
    \<not> sublist fence (body @ butlast fence)
      \<longrightarrow> strip_fences (pre @ fence @ body @ fence @ rest) = Inr body)"
proof -
  have dflt: "safe_default = JObj [(''guideline_violation'', JInt 0), (''violation_reason'', JNull),
                   (''positive_feedback'', JBool False), (''positive_type'', JNull),
                   (''contribution_score'', JInt 0)]"
    by (simp add: safe_default_def)
  have res: "(case request_and_parse lib env post of Inl e \<Rightarrow> safe_default | Inr parsed \<Rightarrow> parsed)
     = (case generate_content env (prompt post) of
               Inl e \<Rightarrow> safe_default
             | Inr response \<Rightarrow>
                 (case strip_fences (str_strip lib response) of
                    Inl e \<Rightarrow> safe_default
                  | Inr payload \<Rightarrow>
                      (case json_loads lib payload of
                         Inl e \<Rightarrow> safe_default
                       | Inr parsed \<Rightarrow> parsed)))"
    by (simp add: request_and_parse_cases split: sum.splits)
  have first: "\<exists>self1 now1.
         analyze_post lib env (self, now) post =
           Inr (case generate_content env (prompt post) of
                  Inl e \<Rightarrow> safe_default
                | Inr response \<Rightarrow>
                    (case strip_fences (str_strip lib response) of
                       Inl e \<Rightarrow> safe_default
                     | Inr payload \<Rightarrow>
                         (case json_loads lib payload of
                            Inl e \<Rightarrow> safe_default
                          | Inr parsed \<Rightarrow> parsed)),
                self1, now1)"
    using analyze_post_result [of lib env self now post] unfolding res .
  show ?thesis
    unfolding Let_def
    using first [unfolded dflt] strip_fences_total [of t]
      strip_fences_plain [of t] strip_fences_json_block [of pre body rest]
      strip_fences_bare_block [of pre body rest]
    by blast
qed

lemma ex_run_ok:
  "analyze_post ex_lib ex_env_ok (new_ContentAnalyzer, 1000) ''hello''
     = Inr (ex_parsed, \<lparr>last_request_time = 1000, request_interval = 4.5\<rparr>, 1001)"
proof -
  have "strip_fences (ascii_strip ex_fenced) = Inr ex_payload"
  proof -
    have "ascii_strip ex_fenced = ''Result: '' @ fence_json @ ex_payload @ fence @ []"
      by (simp add: ascii_strip_def ex_fenced_def ascii_space_def fence_def fence_json_def
            ex_payload_def)
    moreover have "strip_fences (''Result: '' @ fence_json @ ex_payload @ fence @ []) = Inr ex_payload"
      by (rule strip_fences_json_block)
         (simp_all add: fence_def fence_json_def ex_payload_def sublist_code)
    ultimately show ?thesis by simp
  qed
  then show ?thesis
    by (simp add: analyze_post_def request_and_parse_def and_then_def ex_lib_def ex_env_ok_def
          new_ContentAnalyzer_def time_sleep_def)
qed

theorem analyze_post_never_raises_witness:
  "analyze_post ex_lib ex_env_ok (new_ContentAnalyzer, 1000) ''hello''
     = Inr (ex_parsed, \<lparr>last_request_time = 1000, request_interval = 4.5\<rparr>, 1001) \<and>
   analyze_post ex_lib ex_env_down (new_ContentAnalyzer, 1000) ''hello''
     = Inr (JObj [(''guideline_violation'', JInt 0), (''violation_reason'', JNull),
              (''positive_feedback'', JBool False), (''positive_type'', JNull),
              (''contribution_score'', JInt 0)],
            \<lparr>last_request_time = 1000, request_interval = 4.5\<rparr>, 1006) \<and>
   analyze_post ex_lib ex_env_prose (new_ContentAnalyzer, 1000) ''hello''
     = Inr (JObj [(''guideline_violation'', JInt 0), (''violation_reason'', JNull),
              (''positive_feedback'', JBool False), (''positive_type'', JNull),
              (''contribution_score'', JInt 0)],
            \<lparr>last_request_time = 1000, request_interval = 4.5\<rparr>, 1000) \<and>
   \<not> sublist fence ex_payload \<and> strip_fences ex_payload = Inr ex_payload \<and>
   \<not> sublist fence_json (''Result: '' @ butlast fence_json) \<and>
   \<not> sublist fence (ex_payload @ butlast fence) \<and>
   \<not> sublist fence_json (ex_payload @ fence @ [CHR 0x0A]) \<and>
   strip_fences (''Result: '' @ fence_json @ ex_payload @ fence @ [CHR 0x0A]) = Inr ex_payload \<and>
   \<not> sublist fence_json (''Result: '' @ fence @ ex_payload @ fence @ [CHR 0x0A]) \<and>
   \<not> sublist fence (''Result: '' @ butlast fence) \<and>
   strip_fences (''Result: '' @ fence @ ex_payload @ fence @ [CHR 0x0A]) = Inr ex_payload"
proof -
  have down: "analyze_post ex_lib ex_env_down (new_ContentAnalyzer, 1000) ''hello''
     = Inr (JObj [(''guideline_violation'', JInt 0), (''violation_reason'', JNull),
              (''positive_feedback'', JBool False), (''positive_type'', JNull),
              (''contribution_score'', JInt 0)],
            \<lparr>last_request_time = 1000, request_interval = 4.5\<rparr>, 1006)"
    by (simp add: analyze_post_def request_and_parse_def and_then_def ex_lib_def ex_env_down_def
          new_ContentAnalyzer_def time_sleep_def safe_default_def)
  have plain: "strip_fences ''I cannot say.'' = Inr ''I cannot say.''"
    by (rule strip_fences_plain) (simp add: fence_def sublist_code)
  have prose: "analyze_post ex_lib ex_env_prose (new_ContentAnalyzer, 1000) ''hello''
     = Inr (JObj [(''guideline_violation'', JInt 0), (''violation_reason'', JNull),
              (''positive_feedback'', JBool False), (''positive_type'', JNull),
              (''contribution_score'', JInt 0)],
            \<lparr>last_request_time = 1000, request_interval = 4.5\<rparr>, 1000)"
    using plain
    by (simp add: analyze_post_def request_and_parse_def and_then_def ex_lib_def ex_env_prose_def
          new_ContentAnalyzer_def time_sleep_def ascii_strip_def ascii_space_def ex_payload_def
          safe_default_def)
  show ?thesis
    using ex_run_ok down prose ex_no_fence ex_hyps
      analyze_post_never_raises [of ex_lib ex_env_ok new_ContentAnalyzer 1000 "''hello''"
        ex_payload "''Result: ''" ex_payload "[CHR 0x0A]"]
    by (simp add: Let_def)
qed

lemma successively_nth:
  "successively P xs \<Longrightarrow> Suc i < length xs \<Longrightarrow> P (xs ! i) (xs ! Suc i)"
proof (induction xs arbitrary: i rule: induct_list012)
  case 1
  then show ?case by simp
next
  case (2 x)
  then show ?case by simp
next
  case (3 x y zs)
  then show ?case by (cases i) simp_all
qed

text \<open>
  C7. With the clock as state: in a run of calls made one after the other, where
  \<open>time.sleep\<close> never returns early, every call is made, the recorded request time of a
  call is at least 4.5 after the \<open>last_request_time\<close> it found, consecutive recorded
  times are at least 4.5 apart, and the last of N is at least (N - 1) * 4.5 after the first.
\<close>

theorem rate_limit_spacing:
  assumes "request_interval self = 4.5"
    and "list_all (\<lambda>(env, post). 0 \<le> sleep_extra env) calls"
  shows "\<exists>results st'.
           analyze_posts lib (self, now) calls = Inr (results, st') \<and>
           length results = length calls \<and>
           (results = [] \<or> last_request_time self + 4.5 \<le> snd (hd results)) \<and>
           (\<forall>i. Suc i < length results \<longrightarrow> snd (results ! i) + 4.5 \<le> snd (results ! Suc i)) \<and>
           (results = [] \<or> snd (hd results) + real (length calls - 1) * 4.5 \<le> snd (last results))"
proof -
  obtain results st' where
    run: "analyze_posts lib (self, now) calls = Inr (results, st')"
    and len: "length results = length calls"
    and first: "results = [] \<or> last_request_time self + request_interval self \<le> snd (hd results)"
    and succ: "successively (\<lambda>s t. s + request_interval self \<le> t) (map snd results)"
    using analyze_posts_spaced [OF assms(2)] by blast
  have step: "\<forall>i. Suc i < length results \<longrightarrow> snd (results ! i) + 4.5 \<le> snd (results ! Suc i)"
  proof (intro allI impI)
    fix i assume i: "Suc i < length results"
    then have "map snd results ! i + request_interval self \<le> map snd results ! Suc i"
      using successively_nth [OF succ, of i] by simp
    then show "snd (results ! i) + 4.5 \<le> snd (results ! Suc i)"
      using i assms(1) by simp
  qed
  have span: "results = [] \<or> snd (hd results) + real (length calls - 1) * 4.5 \<le> snd (last results)"
  proof (cases "results = []")
    case True
    then show ?thesis by simp
  next
    case False
    then have "hd (map snd results) + real (length (map snd results) - 1) * request_interval self
                 \<le> last (map snd results)"
      using span_of_spaced [OF succ] by simp
    then show ?thesis
      using False len assms(1) by (simp add: hd_map last_map)
  qed
  show ?thesis
    using run len first step span assms(1) by simp
qed

lemma ex_calls_run:
  "analyze_posts ex_lib (new_ContentAnalyzer, 1000) ex_calls
     = Inr ([(safe_default, 1000), (safe_default, 1006), (safe_default, 1010.75)],
            \<lparr>last_request_time = 1010.75, request_interval = 4.5\<rparr>, 1016.75)"
proof -
  have plain: "strip_fences ''I cannot say.'' = Inr ''I cannot say.''"
    by (rule strip_fences_plain) (simp add: fence_def sublist_code)
  show ?thesis
    using plain
    by (simp add: ex_calls_def analyze_post_def request_and_parse_def and_then_def ex_lib_def
          ex_env_down_def ex_env_prose_def new_ContentAnalyzer_def time_sleep_def
          ascii_strip_def ascii_space_def ex_payload_def)
qed

theorem rate_limit_spacing_witness:
  "request_interval new_ContentAnalyzer = 4.5 \<and>
   list_all (\<lambda>(env, post). 0 \<le> sleep_extra env) ex_calls \<and>
   (\<exists>results st'.
      analyze_posts ex_lib (new_ContentAnalyzer, 1000) ex_calls = Inr (results, st') \<and>
      map snd results = [1000, 1006, 1010.75] \<and>
      snd (hd results) + real (length ex_calls - 1) * 4.5 \<le> snd (last results))"
proof -
  have iv: "request_interval new_ContentAnalyzer = 4.5"
    by (simp add: new_ContentAnalyzer_def)
  have ok: "list_all (\<lambda>(env, post). 0 \<le> sleep_extra env) ex_calls"
    by (simp add: ex_calls_def ex_env_down_def ex_env_prose_def)
  show ?thesis
    using iv ok ex_calls_run rate_limit_spacing [OF iv ok, of ex_lib 1000]
    by auto
qed

section \<open>Properties of the channel processor\<close>

lemma json_get_dict: "json_get (JObj kvs) key dflt = Inr (get_or (map_of kvs key) dflt)"
  by (simp add: json_get_def)

lemma json_get_not_dict: "\<not> is_dict j \<Longrightarrow> json_get j key dflt = Inl AttributeError"
  by (cases j) (simp_all add: json_get_def is_dict_def)

lemma flag_dict: "flag (JObj kvs) key = truthy (get_or (map_of kvs key) (JBool False))"
  by (simp add: flag_def json_get_dict)

lemma analyze_message_not_dict:
  assumes "analyzer self = Some an" and "\<not> is_dict (classified an m)"
  shows "analyze_message lib self m channel_id = Inl AttributeError"
  using assms
  by (simp add: analyze_message_def json_get_not_dict and_then_def classified_def Let_def)

lemma analyze_message_no_analyzer:
  "analyzer self = None \<Longrightarrow> analyze_message lib self m channel_id = Inl AttributeError"
  by (simp add: analyze_message_def Let_def)

lemma analyze_message_dict:
  assumes an: "analyzer self = Some an" and sl: "slack self = Some sl"
    and d: "is_dict (classified an m)"
  shows "\<exists>self'.
           analyze_message lib self m channel_id = Inr self' \<and>
           slack self' = Some sl \<and> analyzer self' = Some an \<and>
           scoring self' = record_activity (scoring self) (activity_of sl an channel_id m) \<and>
           length (violations self')
             = length (violations self)
               + (if flag (classified an m) ''guideline_violation'' then 1 else 0) \<and>
           length (positive_messages self')
             = length (positive_messages self)
               + (if flag (classified an m) ''is_positive'' then 1 else 0)"
proof -
  obtain kvs where kvs: "an (get_or (msg_text m) []) = JObj kvs"
    using d by (cases "an (get_or (msg_text m) [])") (simp_all add: is_dict_def classified_def)
  show ?thesis
    using an sl kvs
    by (simp add: analyze_message_def json_get_dict and_then_def classified_def Let_def
          flag_dict record_activity_def activity_of_def)
qed

lemma analyze_each_effect:
  assumes "analyze_each lib self channel_id messages = Inr self'"
    and "analyzer self = Some an" and "slack self = Some sl"
  shows "slack self' = Some sl \<and> analyzer self' = Some an \<and>
         scoring self' = record_all (scoring self) (activities sl an channel_id messages) \<and>
         length (violations self')
           = length (violations self) + count_flagged an ''guideline_violation'' messages \<and>
         length (positive_messages self')
           = length (positive_messages self) + count_flagged an ''is_positive'' messages"
  using assms
proof (induction messages arbitrary: self)
  case Nil
  then show ?case
    by (simp add: record_all_def activities_def count_flagged_def)
next
  case (Cons m messages)
  show ?case
  proof (cases "should_analyze m")
    case False
    then have "analyze_each lib self channel_id messages = Inr self'"
      using Cons.prems(1) by simp
    from Cons.IH [OF this Cons.prems(2,3)] False show ?thesis
      by (simp add: activities_def count_flagged_def)
  next
    case True
    have d: "is_dict (classified an m)"
    proof (rule ccontr)
      assume "\<not> is_dict (classified an m)"
      then have "analyze_message lib self m channel_id = Inl AttributeError"
        using Cons.prems(2) by (simp add: analyze_message_not_dict)
      then show False using Cons.prems(1) True by (simp add: and_then_def)
    qed
    obtain self1 where
      one: "analyze_message lib self m channel_id = Inr self1"
      and sl1: "slack self1 = Some sl" and an1: "analyzer self1 = Some an"
      and sc1: "scoring self1 = record_activity (scoring self) (activity_of sl an channel_id m)"
      and v1: "length (violations self1) = length (violations self)
                 + (if flag (classified an m) ''guideline_violation'' then 1 else 0)"
      and p1: "length (positive_messages self1) = length (positive_messages self)
                 + (if flag (classified an m) ''is_positive'' then 1 else 0)"
      using analyze_message_dict [OF Cons.prems(2,3) d] by blast
    have rest: "analyze_each lib self1 channel_id messages = Inr self'"
      using Cons.prems(1) True one by (simp add: and_then_def)
    from Cons.IH [OF rest an1 sl1] True sc1 v1 p1 show ?thesis
      by (simp add: activities_def count_flagged_def record_all_def)
  qed
qed

lemma analyze_each_total:
  assumes "analyzer self = Some an" and "slack self = Some sl"
    and "list_all (\<lambda>m. should_analyze m \<longrightarrow> is_dict (classified an m)) messages"
  shows "\<exists>self'. analyze_each lib self channel_id messages = Inr self'"
  using assms
proof (induction messages arbitrary: self)
  case Nil
  then show ?case by simp
next
  case (Cons m messages)
  show ?case
  proof (cases "should_analyze m")
    case False
    then show ?thesis using Cons.IH [OF Cons.prems(1,2)] Cons.prems(3) by simp
  next
    case True
    then have d: "is_dict (classified an m)" using Cons.prems(3) by simp
    obtain self1 where
      one: "analyze_message lib self m channel_id = Inr self1"
      and sl1: "slack self1 = Some sl" and an1: "analyzer self1 = Some an"
      using analyze_message_dict [OF Cons.prems(1,2) d] by blast
    have "list_all (\<lambda>m. should_analyze m \<longrightarrow> is_dict (classified an m)) messages"
      using Cons.prems(3) by simp
    from Cons.IH [OF an1 sl1 this] obtain self' where
      "analyze_each lib self1 channel_id messages = Inr self'" by blast
    then show ?thesis using True one by (simp add: and_then_def)
  qed
qed

lemma process_channel_empty:
  "slack self = Some sl \<Longrightarrow> get_channel_messages sl channel_id hours = [] \<Longrightarrow>
   process_channel lib self channel_id hours = Inr (None, self)"
  by (simp add: process_channel_def)

lemma process_channel_summary:
  assumes "process_channel lib self channel_id hours = Inr (Some summary, self')"
    and "slack self = Some sl"
  shows "analyze_each lib self channel_id (fetched sl channel_id hours) = Inr self' \<and>
         summary = \<lparr>sum_total_messages = length (fetched sl channel_id hours),
                     sum_violations_found = length (violations self'),
                     sum_positive_messages = length (positive_messages self'),
                     sum_top_contributors = take 5 (calculate_rankings (scoring self'))\<rparr>"
  using assms
  by (auto simp: process_channel_def fetched_def Let_def and_then_def
        split: if_splits sum.splits)

lemma process_channel_total:
  assumes sl: "slack self = Some sl" and an: "analyzer self = Some an"
    and ne: "get_channel_messages sl channel_id hours \<noteq> []"
    and d: "list_all (\<lambda>m. should_analyze m \<longrightarrow> is_dict (classified an m))
              (fetched sl channel_id hours)"
  shows "\<exists>self'.
           process_channel lib self channel_id hours =
             Inr (Some \<lparr>sum_total_messages = length (fetched sl channel_id hours),
                        sum_violations_found = length (violations self'),
                        sum_positive_messages = length (positive_messages self'),
                        sum_top_contributors = take 5 (calculate_rankings (scoring self'))\<rparr>,
                  self')"
proof -
  obtain self' where "analyze_each lib self channel_id (fetched sl channel_id hours) = Inr self'"
    using analyze_each_total [OF an sl d] by blast
  then show ?thesis
    using sl ne by (simp add: process_channel_def fetched_def and_then_def)
qed

lemma process_channel_effect:
  assumes run: "process_channel lib self channel_id hours = Inr (Some summary, self')"
    and sl: "slack self = Some sl" and an: "analyzer self = Some an"
  shows "slack self' = Some sl \<and> analyzer self' = Some an \<and>
         scoring self' = record_all (scoring self) (activities sl an channel_id (fetched sl channel_id hours)) \<and>
         length (violations self')
           = length (violations self)
             + count_flagged an ''guideline_violation'' (fetched sl channel_id hours) \<and>
         length (positive_messages self')
           = length (positive_messages self)
             + count_flagged an ''is_positive'' (fetched sl channel_id hours) \<and>
         sum_total_messages summary = length (fetched sl channel_id hours) \<and>
         sum_violations_found summary = length (violations self') \<and>
         sum_positive_messages summary = length (positive_messages self') \<and>
         sum_top_contributors summary = take 5 (calculate_rankings (scoring self'))"
proof -
  have each: "analyze_each lib self channel_id (fetched sl channel_id hours) = Inr self'"
    and sum: "summary = \<lparr>sum_total_messages = length (fetched sl channel_id hours),
                     sum_violations_found = length (violations self'),
                     sum_positive_messages = length (positive_messages self'),
                     sum_top_contributors = take 5 (calculate_rankings (scoring self'))\<rparr>"
    using process_channel_summary [OF run sl] by simp_all
  show ?thesis
    using analyze_each_effect [OF each an sl] sum by simp
qed

lemma record_all_append:
  "record_all users (xs @ ys) = record_all (record_all users xs) ys"
  by (simp add: record_all_def)

text \<open>
  C10. \<open>process_channel\<close> never resets \<open>violations\<close>, \<open>positive_messages\<close> or the
  scoring engine: of two invocations on the same processor that both return a summary, the
  second reports the violations and positive messages the processor held before plus
  those of both runs, ranks the users by the activities of both runs, and counts as
  \<open>total_messages\<close> the messages of the second fetch only.
\<close>

theorem accumulators_span_invocations:
  assumes "slack self0 = Some sl" and "analyzer self0 = Some an"
    and "process_channel lib self0 channel1 hours1 = Inr (Some summary1, self1)"
    and "process_channel lib self1 channel2 hours2 = Inr (Some summary2, self2)"
  shows "sum_violations_found summary2
           = length (violations self0)
             + count_flagged an ''guideline_violation'' (fetched sl channel1 hours1)
             + count_flagged an ''guideline_violation'' (fetched sl channel2 hours2) \<and>
         sum_positive_messages summary2
           = length (positive_messages self0)
             + count_flagged an ''is_positive'' (fetched sl channel1 hours1)
             + count_flagged an ''is_positive'' (fetched sl channel2 hours2) \<and>
         sum_violations_found summary2
           = sum_violations_found summary1
             + count_flagged an ''guideline_violation'' (fetched sl channel2 hours2) \<and>
         sum_positive_messages summary2
           = sum_positive_messages summary1
             + count_flagged an ''is_positive'' (fetched sl channel2 hours2) \<and>
         sum_top_contributors summary2
           = take 5 (calculate_rankings
               (record_all (scoring self0)
                  (activities sl an channel1 (fetched sl channel1 hours1)
                   @ activities sl an channel2 (fetched sl channel2 hours2)))) \<and>
         sum_total_messages summary2 = length (fetched sl channel2 hours2)"
proof -
  note one = process_channel_effect [OF assms(3) assms(1) assms(2)]
  then have sl1: "slack self1 = Some sl" and an1: "analyzer self1 = Some an" by simp_all
  note two = process_channel_effect [OF assms(4) sl1 an1]
  show ?thesis
    using one two by (simp add: record_all_append)
qed

lemma texts_differ: "insult_text \<noteq> thanks_text"
  by (simp add: insult_text_def thanks_text_def)

lemma scenario_fetched:
  "fetched scenario_slack channel_id hours =
     [\<lparr>msg_text = Some thanks_text, msg_user = Some ''U1'', msg_ts = Some ''1700000000.5'',
       msg_subtype = None,
       msg_user_info = Some \<lparr>real_name = ''A'', display_name = ''A'', is_bot = False\<rparr>\<rparr>,
      \<lparr>msg_text = Some insult_text, msg_user = Some ''U2'', msg_ts = Some ''1700000001.5'',
       msg_subtype = None,
       msg_user_info = Some \<lparr>real_name = ''B'', display_name = ''B'', is_bot = False\<rparr>\<rparr>]"
  by (simp add: fetched_def enrich_messages_with_user_info_def scenario_slack_def
        scenario_messages_def get_or_def)

lemma scenario_length: "length (fetched scenario_slack channel_id hours) = 2"
  by (simp add: scenario_fetched)

lemma scenario_not_empty: "get_channel_messages scenario_slack channel_id hours \<noteq> []"
  by (simp add: scenario_slack_def scenario_messages_def)

lemma text_nonempty: "thanks_text \<noteq> []" "insult_text \<noteq> []"
  by (simp_all add: insult_text_def thanks_text_def)

lemma scenario_eligible:
  "filter should_analyze (fetched scenario_slack channel_id hours)
     = fetched scenario_slack channel_id hours"
  by (simp add: scenario_fetched should_analyze_def text_nonempty)

lemma scenario_dicts:
  "list_all (\<lambda>m. should_analyze m \<longrightarrow> is_dict (classified scenario_classifier m))
     (fetched scenario_slack channel_id hours)"
  by (simp add: scenario_fetched classified_def scenario_classifier_def is_dict_def get_or_def)

lemma scenario_counts:
  "count_flagged scenario_classifier ''guideline_violation'' (fetched scenario_slack channel_id hours) = 1"
  "count_flagged scenario_classifier ''is_positive'' (fetched scenario_slack channel_id hours) = 1"
  by (simp_all add: count_flagged_def scenario_fetched should_analyze_def text_nonempty
        classified_def scenario_classifier_def flag_dict get_or_def texts_differ)

lemma scenario_activities:
  "activities scenario_slack scenario_classifier channel_id (fetched scenario_slack channel_id hours)
     = [\<lparr>a_user_id = ''U1'', a_user_name = ''A'', a_post_count = 1, a_positive_count = 1,
         a_reaction_received = 0, a_violation_count = 0\<rparr>,
        \<lparr>a_user_id = ''U2'', a_user_name = ''B'', a_post_count = 1, a_positive_count = 0,
         a_reaction_received = 0, a_violation_count = 0\<rparr>]"
  unfolding activities_def scenario_fetched
  by (simp add: activity_of_def classified_def scenario_classifier_def should_analyze_def
        text_nonempty flag_dict get_or_def texts_differ scenario_slack_def)

lemma scenario_wiring:
  "slack scenario_processor = Some scenario_slack"
  "analyzer scenario_processor = Some scenario_classifier"
  "scoring scenario_processor = []" "violations scenario_processor = []"
  "positive_messages scenario_processor = []"
  by (simp_all add: scenario_processor_def new_MessageProcessor_def new_ScoringSystem_def)

lemma scenario_rankings:
  "calculate_rankings (record_all []
     [\<lparr>a_user_id = ''U1'', a_user_name = ''A'', a_post_count = 1, a_positive_count = 1,
       a_reaction_received = 0, a_violation_count = 0\<rparr>,
      \<lparr>a_user_id = ''U2'', a_user_name = ''B'', a_post_count = 1, a_positive_count = 0,
       a_reaction_received = 0, a_violation_count = 0\<rparr>])
   = [\<lparr>user_id = ''U1'', user_name = ''A'', post_count = 1, positive_count = 1,
       reaction_count = 0, violation_count = 0, total_score = 0\<rparr>,
      \<lparr>user_id = ''U2'', user_name = ''B'', post_count = 1, positive_count = 0,
       reaction_count = 0, violation_count = 0, total_score = 0\<rparr>]"
  by (simp add: record_all_def record_activity_def add_user_activity_def dict_get_def
        new_UserScore_def calculate_rankings_def py_sorted_reverse_def dict_values_def
        calculate_total_score_def)

text \<open>
  C1, evaluated on the code. In the end-to-end scenario \<open>process_channel\<close> returns the
  summary with 2 messages, 1 violation and 1 positive message, and ranks U1 above U2; U1's
  derived score is 6, but U2's is 1, not -9: \<open>_analyze_message\<close> passes no
  \<open>violation_count\<close> to the scoring engine, so the violation costs nothing.
\<close>

theorem end_to_end_scenario_scores:
  "\<exists>summary self'.
     process_channel ex_lib scenario_processor ''C0123'' 24 = Inr (Some summary, self') \<and>
     sum_total_messages summary = 2 \<and>
     sum_violations_found summary = 1 \<and>
     sum_positive_messages summary = 1 \<and>
     sum_top_contributors summary
       = [\<lparr>user_id = ''U1'', user_name = ''A'', post_count = 1, positive_count = 1,
           reaction_count = 0, violation_count = 0, total_score = 0\<rparr>,
          \<lparr>user_id = ''U2'', user_name = ''B'', post_count = 1, positive_count = 0,
           reaction_count = 0, violation_count = 0, total_score = 0\<rparr>] \<and>
     map calculate_total_score (sum_top_contributors summary) = [6, 1]"
proof -
  obtain summary self' where
    run: "process_channel ex_lib scenario_processor ''C0123'' 24 = Inr (Some summary, self')"
    using process_channel_total [OF scenario_wiring(1,2) scenario_not_empty scenario_dicts]
    by blast
  note eff = process_channel_effect [OF run scenario_wiring(1,2)]
  have top: "sum_top_contributors summary
       = [\<lparr>user_id = ''U1'', user_name = ''A'', post_count = 1, positive_count = 1,
           reaction_count = 0, violation_count = 0, total_score = 0\<rparr>,
          \<lparr>user_id = ''U2'', user_name = ''B'', post_count = 1, positive_count = 0,
           reaction_count = 0, violation_count = 0, total_score = 0\<rparr>]"
    using eff by (simp add: scenario_activities scenario_wiring scenario_rankings)
  have counts: "sum_total_messages summary = 2 \<and> sum_violations_found summary = 1 \<and>
     sum_positive_messages summary = 1"
    using eff by (simp add: scenario_counts scenario_wiring scenario_length)
  have "map calculate_total_score (sum_top_contributors summary) = [6, 1]"
    unfolding top by (simp add: calculate_total_score_def)
  then show ?thesis
    using run top counts
    by (rule_tac x = summary in exI, rule_tac x = self' in exI) simp
qed

lemma scenario_rankings_twice:
  "calculate_rankings (record_all []
     [\<lparr>a_user_id = ''U1'', a_user_name = ''A'', a_post_count = 1, a_positive_count = 1,
       a_reaction_received = 0, a_violation_count = 0\<rparr>,
      \<lparr>a_user_id = ''U2'', a_user_name = ''B'', a_post_count = 1, a_positive_count = 0,
       a_reaction_received = 0, a_violation_count = 0\<rparr>,
      \<lparr>a_user_id = ''U1'', a_user_name = ''A'', a_post_count = 1, a_positive_count = 1,
       a_reaction_received = 0, a_violation_count = 0\<rparr>,
      \<lparr>a_user_id = ''U2'', a_user_name = ''B'', a_post_count = 1, a_positive_count = 0,
       a_reaction_received = 0, a_violation_count = 0\<rparr>])
   = [\<lparr>user_id = ''U1'', user_name = ''A'', post_count = 2, positive_count = 2,
       reaction_count = 0, violation_count = 0, total_score = 0\<rparr>,
      \<lparr>user_id = ''U2'', user_name = ''B'', post_count = 2, positive_count = 0,
       reaction_count = 0, violation_count = 0, total_score = 0\<rparr>]"
  by (simp add: record_all_def record_activity_def add_user_activity_def dict_get_def
        new_UserScore_def calculate_rankings_def py_sorted_reverse_def dict_values_def
        calculate_total_score_def)

theorem accumulators_span_invocations_witness:
  "slack scenario_processor = Some scenario_slack \<and>
   analyzer scenario_processor = Some scenario_classifier \<and>
   (\<exists>summary1 self1 summary2 self2.
      process_channel ex_lib scenario_processor ''C0123'' 24 = Inr (Some summary1, self1) \<and>
      process_channel ex_lib self1 ''C0123'' 24 = Inr (Some summary2, self2) \<and>
      sum_violations_found summary1 = 1 \<and> sum_positive_messages summary1 = 1 \<and>
      sum_total_messages summary2 = 2 \<and>
      sum_violations_found summary2 = 2 \<and> sum_positive_messages summary2 = 2 \<and>
      map post_count (sum_top_contributors summary2) = [2, 2])"
proof -
  obtain summary1 self1 where
    run1: "process_channel ex_lib scenario_processor ''C0123'' 24 = Inr (Some summary1, self1)"
    using process_channel_total [OF scenario_wiring(1,2) scenario_not_empty scenario_dicts]
    by blast
  note eff1 = process_channel_effect [OF run1 scenario_wiring(1,2)]
  then have sl1: "slack self1 = Some scenario_slack"
    and an1: "analyzer self1 = Some scenario_classifier" by simp_all
  obtain summary2 self2 where
    run2: "process_channel ex_lib self1 ''C0123'' 24 = Inr (Some summary2, self2)"
    using process_channel_total [OF sl1 an1 scenario_not_empty scenario_dicts]
    by blast
  have first: "sum_violations_found summary1 = 1 \<and> sum_positive_messages summary1 = 1"
    using eff1 by (simp add: scenario_counts scenario_wiring)
  have both:
    "sum_total_messages summary2 = 2 \<and>
     sum_violations_found summary2 = 2 \<and> sum_positive_messages summary2 = 2 \<and>
     map post_count (sum_top_contributors summary2) = [2, 2]"
    using accumulators_span_invocations [OF scenario_wiring(1,2) run1 run2]
    by (simp add: scenario_counts scenario_wiring scenario_length scenario_activities
          scenario_rankings_twice)
  show ?thesis
    using run1 run2 first both scenario_wiring(1,2)
    by auto
qed

text \<open>What \<open>process_channel\<close> returns when nothing is raised: the empty dict for an
  empty fetch, a summary with the four keys otherwise.\<close>

lemma process_channel_returns:
  "(slack self = Some sl \<and> get_channel_messages sl channel_id hours = []
      \<longrightarrow> process_channel lib self channel_id hours = Inr (None, self)) \<and>
   (slack self = Some sl \<and> analyzer self = Some an \<and>
    get_channel_messages sl channel_id hours \<noteq> [] \<and>
    list_all (\<lambda>m. should_analyze m \<longrightarrow> is_dict (classified an m)) (fetched sl channel_id hours)
      \<longrightarrow> (\<exists>self'.
             process_channel lib self channel_id hours =
               Inr (Some \<lparr>sum_total_messages = length (fetched sl channel_id hours),
                          sum_violations_found = length (violations self'),
                          sum_positive_messages = length (positive_messages self'),
                          sum_top_contributors = take 5 (calculate_rankings (scoring self'))\<rparr>,
                    self')))"
  using process_channel_empty [of self sl channel_id hours lib]
    process_channel_total [of self sl an channel_id hours lib]
  by blast

lemma analyze_post_passes_array:
  "analyze_post array_lib array_env (new_ContentAnalyzer, 1000) thanks_text
     = Inr (JList [], \<lparr>last_request_time = 1000, request_interval = 4.5\<rparr>, 1001)"
proof -
  have plain: "strip_fences ''[]'' = Inr ''[]''"
    by (rule strip_fences_plain) (simp add: fence_def sublist_code)
  show ?thesis
    using plain
    by (simp add: analyze_post_def request_and_parse_def and_then_def array_lib_def ex_lib_def
          array_env_def new_ContentAnalyzer_def time_sleep_def ascii_strip_def ascii_space_def)
qed

text \<open>
  C9, evaluated on the code. Not every invocation of \<open>process_channel\<close> returns a
  summary. When the model's reply is the JSON text of an array, \<open>analyze_post\<close> raises
  nothing and returns the array, not a dict; with such a classification
  \<open>process_channel\<close> raises AttributeError at the first message it analyses, although the
  fetch returned two messages.
\<close>

theorem process_channel_aborts_on_array:
  "analyze_post array_lib array_env (new_ContentAnalyzer, 1000) thanks_text
     = Inr (JList [], \<lparr>last_request_time = 1000, request_interval = 4.5\<rparr>, 1001) \<and>
   array_classifier thanks_text = JList [] \<and>
   length (get_channel_messages scenario_slack ''C0123'' 24) = 2 \<and>
   process_channel ex_lib (new_MessageProcessor (Some scenario_slack) (Some array_classifier))
     ''C0123'' 24 = Inl AttributeError"
proof -
  have "analyze_each ex_lib (new_MessageProcessor (Some scenario_slack) (Some array_classifier))
          ''C0123'' (fetched scenario_slack ''C0123'' 24) = Inl AttributeError"
    unfolding scenario_fetched
    by (simp add: should_analyze_def text_nonempty and_then_def analyze_message_not_dict
          new_MessageProcessor_def classified_def array_classifier_def is_dict_def)
  then have "process_channel ex_lib
               (new_MessageProcessor (Some scenario_slack) (Some array_classifier))
               ''C0123'' 24 = Inl AttributeError"
    using scenario_not_empty [of "''C0123''" 24]
    by (simp add: process_channel_def new_MessageProcessor_def fetched_def and_then_def)
  then show ?thesis
    using analyze_post_passes_array
    by (simp add: array_classifier_def scenario_slack_def scenario_messages_def)
qed

lemma list_ex_in: "list_ex (\<lambda>word. py_in word t) ws \<longleftrightarrow> (\<exists>w\<in>set ws. sublist w t)"
  by (simp add: list_ex_iff py_in_sublist)

lemma notify_violation_severity:
  "notify_violation lib sent m channel_id analysis = sent \<or>
   (\<exists>a. notify_violation lib sent m channel_id analysis = sent @ [a] \<and>
        va_severity a = severity_of lib (get_or (msg_text m) []))"
  by (simp add: notify_violation_def Let_def split: sum.splits)

text \<open>
  C8. The severity of a violation: \<open>high\<close> when the lowered text contains a keyword of
  the urgent list, whether or not it also contains one of the problem list; else
  \<open>medium\<close> when it contains a keyword of the problem list; else \<open>low\<close>. An alert
  that is built carries this severity of the message text.
\<close>

theorem severity_priority:
  "((\<exists>w\<in>set urgent_words. sublist w (str_lower lib t)) \<longrightarrow> severity_of lib t = ''high'') \<and>
   (\<not> (\<exists>w\<in>set urgent_words. sublist w (str_lower lib t)) \<and>
    (\<exists>w\<in>set problem_words. sublist w (str_lower lib t)) \<longrightarrow> severity_of lib t = ''medium'') \<and>
   (\<not> (\<exists>w\<in>set urgent_words. sublist w (str_lower lib t)) \<and>
    \<not> (\<exists>w\<in>set problem_words. sublist w (str_lower lib t)) \<longrightarrow> severity_of lib t = ''low'') \<and>
   (notify_violation lib sent m channel_id analysis = sent \<or>
    (\<exists>a. notify_violation lib sent m channel_id analysis = sent @ [a] \<and>
         va_severity a = severity_of lib (get_or (msg_text m) [])))"
  using notify_violation_severity [of lib sent m channel_id analysis]
  by (simp add: severity_of_def Let_def list_ex_in)

lemma lower_examples:
  "ascii_lower urgent_problem_text = ''note '' @ [CHR 0xE7, CHR 0xB7, CHR 0x8A, CHR 0xE6, CHR 0x80, CHR 0xA5] @ '' / '' @ [CHR 0xE5, CHR 0x95, CHR 0x8F, CHR 0xE9, CHR 0xA1, CHR 0x8C]"
  "ascii_lower problem_only_text = ''note '' @ [CHR 0xE5, CHR 0x95, CHR 0x8F, CHR 0xE9, CHR 0xA1, CHR 0x8C]"
  "ascii_lower thanks_text = thanks_text"
  by (simp_all add: ascii_lower_def urgent_problem_text_def problem_only_text_def thanks_text_def)

lemma severity_examples:
  "(\<exists>w\<in>set urgent_words. sublist w (str_lower ex_lib urgent_problem_text))"
  "(\<exists>w\<in>set problem_words. sublist w (str_lower ex_lib urgent_problem_text))"
  "\<not> (\<exists>w\<in>set urgent_words. sublist w (str_lower ex_lib problem_only_text))"
  "(\<exists>w\<in>set problem_words. sublist w (str_lower ex_lib problem_only_text))"
  "\<not> (\<exists>w\<in>set urgent_words. sublist w (str_lower ex_lib thanks_text))"
  "\<not> (\<exists>w\<in>set problem_words. sublist w (str_lower ex_lib thanks_text))"
  unfolding ex_lib_def
  by (simp_all add: lower_examples)
     (simp_all add: urgent_words_def problem_words_def thanks_text_def sublist_code)

theorem severity_priority_witness:
  "(\<exists>w\<in>set urgent_words. sublist w (str_lower ex_lib urgent_problem_text)) \<and>
   (\<exists>w\<in>set problem_words. sublist w (str_lower ex_lib urgent_problem_text)) \<and>
   severity_of ex_lib urgent_problem_text = ''high'' \<and>
   \<not> (\<exists>w\<in>set urgent_words. sublist w (str_lower ex_lib problem_only_text)) \<and>
   (\<exists>w\<in>set problem_words. sublist w (str_lower ex_lib problem_only_text)) \<and>
   severity_of ex_lib problem_only_text = ''medium'' \<and>
   \<not> (\<exists>w\<in>set urgent_words. sublist w (str_lower ex_lib thanks_text)) \<and>
   \<not> (\<exists>w\<in>set problem_words. sublist w (str_lower ex_lib thanks_text)) \<and>
   severity_of ex_lib thanks_text = ''low''"
proof -
  have high: "severity_of ex_lib urgent_problem_text = ''high''"
    using severity_examples(1) severity_priority [of ex_lib urgent_problem_text] by simp
  have medium: "severity_of ex_lib problem_only_text = ''medium''"
    using severity_examples(3,4) severity_priority [of ex_lib problem_only_text] by simp
  have low: "severity_of ex_lib thanks_text = ''low''"
    using severity_examples(5,6) severity_priority [of ex_lib thanks_text] by simp
  show ?thesis
    using severity_examples high medium low by simp
qed

lemma thanks_severity: "severity_of ex_lib thanks_text = ''low''"
  using severity_examples(5,6) by (simp add: severity_of_def list_ex_in)

lemma ts_example: "datetime_fromtimestamp ex_lib ''1700000000.5'' = Inr 1700000000.5"
  by (simp add: ex_lib_def)

text \<open>
  C2, evaluated on the code. A message whose classification has the violation score 30
  is recorded in \<open>violations\<close> and an alert is handed to the notification system: the
  decision is the truth value of \<open>"guideline_violation"\<close>, so every score but 0 is a
  violation, and no threshold of 50 is applied.
\<close>

theorem violation_recorded_below_threshold:
  "(\<exists>self'.
      analyze_message ex_lib
          (new_MessageProcessor (Some scenario_slack) (Some score_30_classifier))
          \<lparr>msg_text = Some thanks_text, msg_user = Some ''U1'', msg_ts = Some ''1700000000.5'',
           msg_subtype = None,
           msg_user_info = Some \<lparr>real_name = ''A'', display_name = ''A'', is_bot = False\<rparr>\<rparr>
          ''C0123''
        = Inr self' \<and>
      map v_user_id (violations self') = [''U1''] \<and>
      map_option (map va_severity) (notification_system self') = Some [''low'']) \<and>
   flag (JObj [(''guideline_violation'', JInt n)]) ''guideline_violation'' = (n \<noteq> 0)"
  by (simp add: analyze_message_def new_MessageProcessor_def score_30_classifier_def
        json_get_dict and_then_def get_or_def notify_violation_def thanks_severity
        ts_example scenario_slack_def flag_dict Let_def)

lemma update_user_post_counts_violation:
  "update_user_post new_ScoringSystem ''U2'' ''B''
     (JObj [(''guideline_violation'', JInt 80), (''positive_feedback'', JBool False)]) 0
   = Inr [(''U2'', \<lparr>user_id = ''U2'', user_name = ''B'', post_count = 1, positive_count = 0,
                  reaction_count = 0, violation_count = 1, total_score = 0\<rparr>)]"
  "calculate_total_score \<lparr>user_id = ''U2'', user_name = ''B'', post_count = 1, positive_count = 0,
                  reaction_count = 0, violation_count = 1, total_score = 0\<rparr> = - 9"
  by (simp_all add: update_user_post_def json_get_dict and_then_def get_or_def
        add_user_activity_def dict_get_def new_UserScore_def new_ScoringSystem_def
        calculate_total_score_def)

lemma scenario_prompt_keys_miss_positive:
  "\<exists>summary self'.
     process_channel ex_lib
         (new_MessageProcessor (Some scenario_slack) (Some scenario_classifier_prompt_keys))
         ''C0123'' 24 = Inr (Some summary, self') \<and>
     sum_violations_found summary = 1 \<and>
     sum_positive_messages summary = 0 \<and>
     map calculate_total_score (sum_top_contributors summary) = [1, 1]"
proof -
  let ?p = "new_MessageProcessor (Some scenario_slack) (Some scenario_classifier_prompt_keys)"
  have w: "slack ?p = Some scenario_slack" "analyzer ?p = Some scenario_classifier_prompt_keys"
    "scoring ?p = []" "violations ?p = []" "positive_messages ?p = []"
    by (simp_all add: new_MessageProcessor_def new_ScoringSystem_def)
  have d: "list_all (\<lambda>m. should_analyze m \<longrightarrow> is_dict (classified scenario_classifier_prompt_keys m))
     (fetched scenario_slack ''C0123'' 24)"
    by (simp add: scenario_fetched classified_def scenario_classifier_prompt_keys_def is_dict_def
          get_or_def)
  have c: "count_flagged scenario_classifier_prompt_keys ''guideline_violation''
             (fetched scenario_slack ''C0123'' 24) = 1"
    "count_flagged scenario_classifier_prompt_keys ''is_positive''
             (fetched scenario_slack ''C0123'' 24) = 0"
    by (simp_all add: count_flagged_def scenario_fetched should_analyze_def text_nonempty
        classified_def scenario_classifier_prompt_keys_def flag_dict get_or_def texts_differ)
  have a: "activities scenario_slack scenario_classifier_prompt_keys ''C0123''
             (fetched scenario_slack ''C0123'' 24)
     = [\<lparr>a_user_id = ''U1'', a_user_name = ''A'', a_post_count = 1, a_positive_count = 0,
         a_reaction_received = 0, a_violation_count = 0\<rparr>,
        \<lparr>a_user_id = ''U2'', a_user_name = ''B'', a_post_count = 1, a_positive_count = 0,
         a_reaction_received = 0, a_violation_count = 0\<rparr>]"
    unfolding activities_def scenario_fetched
    by (simp add: activity_of_def classified_def scenario_classifier_prompt_keys_def
          should_analyze_def text_nonempty flag_dict get_or_def texts_differ scenario_slack_def)
  obtain summary self' where
    run: "process_channel ex_lib ?p ''C0123'' 24 = Inr (Some summary, self')"
    using process_channel_total [OF w(1,2) scenario_not_empty d] by blast
  note eff = process_channel_effect [OF run w(1,2)]
  have "sum_violations_found summary = 1 \<and> sum_positive_messages summary = 0 \<and>
        map calculate_total_score (sum_top_contributors summary) = [1, 1]"
    using eff
    by (simp add: c a w record_all_def record_activity_def add_user_activity_def dict_get_def
        new_UserScore_def calculate_rankings_def py_sorted_reverse_def dict_values_def
        calculate_total_score_def)
  then show ?thesis using run by auto
qed

end
